theory Spec2Isabelle
  imports Main
begin

section \<open>Data model\<close>

text \<open>
  The storefront of \<^verbatim>\<open>src/api.js\<close> keeps its session and cart in one object of class
  \<^verbatim>\<open>FavsBlingStore\<close>. The identity provider hands it a user object, of which the store
  reads \<^verbatim>\<open>uid\<close> and \<^verbatim>\<open>email\<close>.

  A JavaScript string is modelled by the list of its code units, for strings whose code
  units are below 256; product ids and prices are integers, which the store only compares
  and copies.
\<close>

record user =
  uid :: string
  email :: string

text \<open>
  Quantities and the customer statistics are numbers of the language that the store adds
  to: double-precision values. The store adds whole numbers to whole numbers only, so a
  number is a whole value or an infinity (\<^verbatim>\<open>NaN\<close> and fractions do not arise from whole
  finite summands). \<open>Finite n\<close> stands for a double when \<open>n\<close> is one of the integers a double
  can hold: every integer up to \<open>2 ^ 53\<close> in size, and beyond that the multiples of the
  unit of their binade.
\<close>

datatype number = NegInfinity | Finite int | Infinity

text \<open>The spacing of the doubles around an integer of size \<open>m\<close>: 1 below \<open>2 ^ 53\<close>,
  doubling with every further binary digit.\<close>

function unit_of :: "int \<Rightarrow> int" where
  "unit_of m = (if m < 9007199254740992 then 1 else 2 * unit_of (m div 2))"
  by pat_completeness auto
termination
  by (relation "measure nat") auto

declare unit_of.simps [simp del]

text \<open>Rounding of an exact integer result to the nearest double, ties to the even
  significand; a result of size \<open>2 ^ 1024\<close> or more is an infinity.\<close>

definition nearest :: "int \<Rightarrow> int" where
  "nearest n =
     (let u = unit_of \<bar>n\<bar>; q = n div u; r = n mod u
      in (if 2 * r < u then q else if u < 2 * r then q + 1 else if even q then q else q + 1) * u)"

definition round_double :: "int \<Rightarrow> number" where
  "round_double n =
     (if 2 ^ 1024 \<le> nearest n then Infinity
      else if nearest n \<le> - (2 ^ 1024) then NegInfinity
      else Finite (nearest n))"

text \<open>\<^verbatim>\<open>x += c\<close> for a finite whole \<open>c\<close>, and the comparisons the store and the
  specification make.\<close>

definition js_plus :: "number \<Rightarrow> int \<Rightarrow> number" where
  "js_plus x c =
     (case x of
        Finite a \<Rightarrow> round_double (a + c)
      | Infinity \<Rightarrow> Infinity
      | NegInfinity \<Rightarrow> NegInfinity)"

definition le_zero :: "number \<Rightarrow> bool" where
  "le_zero x = (case x of Finite a \<Rightarrow> a \<le> 0 | Infinity \<Rightarrow> False | NegInfinity \<Rightarrow> True)"

definition at_least_one :: "number \<Rightarrow> bool" where
  "at_least_one x = (case x of Finite a \<Rightarrow> 1 \<le> a | Infinity \<Rightarrow> True | NegInfinity \<Rightarrow> False)"

text \<open>A catalogue entry, as the object literals of \<^verbatim>\<open>getDefaultProducts\<close> write it.
  Services carry no \<^verbatim>\<open>stock\<close>.\<close>

record product =
  id' :: int
  name :: string
  price :: int
  image_url :: string
  category :: string
  description :: string
  stock :: "int option"

text \<open>A cart line is \<^verbatim>\<open>{...product, quantity: 1}\<close>: the product's fields and a quantity.\<close>

record cart_item = product +
  quantity :: number

type_synonym cart = "cart_item list"

record customer =
  customer_id :: int
  customer_email :: string
  customer_orders :: number
  totalSpent :: number

text \<open>The order literal of \<^verbatim>\<open>handlePaymentSuccess\<close>.\<close>

record order =
  order_id :: string
  customerEmail :: string
  customerName :: string
  customerPhone :: string
  deliveryAddress :: string
  items :: cart
  order_total :: int
  status :: string
  date :: string
  paymentMethod :: string
  verified :: bool
  verificationData :: string
  backendVerified :: bool

text \<open>What \<^verbatim>\<open>JSON.stringify\<close> is given before a write to \<^verbatim>\<open>localStorage\<close>: the stored text
  is determined by the value serialised, which is all the model keeps of it.\<close>

datatype json =
    JSON_cart cart
  | JSON_orders "order list"
  | JSON_customers "customer list"

text \<open>Exceptions: a \<^verbatim>\<open>TypeError\<close> of the language, a rejected promise of the remote
  database or of \<^verbatim>\<open>fetch\<close>, a throwing \<^verbatim>\<open>localStorage.setItem\<close>, and the
  \<^verbatim>\<open>new Error(message)\<close> of the source.\<close>

datatype exn =
    TypeError
  | FirebaseError
  | StorageError
  | NetworkError
  | Error string

text \<open>How the outside world answers one request.\<close>

datatype outcome = Succeeds | Fails

text \<open>Everything the store does to the outside world is appended to a trace: requests to
  the remote database (by path), writes to \<^verbatim>\<open>localStorage\<close> (by key), the verification
  request, \<^verbatim>\<open>console.error\<close> and the messages handed to \<^verbatim>\<open>showNotification\<close> (their text
  without the leading pictogram, and their type).\<close>

datatype effect =
    RemoteGet string
  | RemoteSet string cart
  | LocalSet string json
  | Fetch string string
  | ConsoleError string
  | Notify string string

text \<open>
  The fields of \<^verbatim>\<open>FavsBlingStore\<close> that its logic reads and writes, followed by the two
  stores it persists to (the remote database, a map from paths to carts, and
  \<^verbatim>\<open>localStorage\<close>) and the trace. \<^verbatim>\<open>products\<close> is the object keyed by category.
  The document is not modelled: \<^verbatim>\<open>updateCartDisplay\<close>, \<^verbatim>\<open>updateAuthUI\<close>,
  \<^verbatim>\<open>showSection\<close>, \<^verbatim>\<open>loadProducts\<close> and the admin panels only read the fields below
  and write the page (and \<^verbatim>\<open>currentSection\<close>), and are left out of the functions.
\<close>

record state =
  products :: "string \<rightharpoonup> product list"
  cart :: cart
  orders :: "order list"
  customers :: "customer list"
  adminEmail :: string
  currentUser :: "user option"
  isAdmin :: bool
  firebase :: "string \<rightharpoonup> cart"
  localStorage :: "string \<rightharpoonup> json"
  effects :: "effect list"

text \<open>A function of the source either returns or throws, and in both cases leaves a
  state behind: its result is the exception, if any, and that state.\<close>

type_synonym completion = "exn option \<times> state"

definition normal :: "state \<Rightarrow> completion" where
  "normal s = (None, s)"

definition and_then :: "completion \<Rightarrow> (state \<Rightarrow> completion) \<Rightarrow> completion" where
  "and_then r k = (case r of (None, s) \<Rightarrow> k s | (Some e, s) \<Rightarrow> (Some e, s))"

definition try_catch :: "completion \<Rightarrow> (exn \<Rightarrow> state \<Rightarrow> completion) \<Rightarrow> completion" where
  "try_catch body handler = (case body of (None, s) \<Rightarrow> (None, s) | (Some e, s) \<Rightarrow> handler e s)"

section \<open>The outside world\<close>

definition emit :: "effect \<Rightarrow> state \<Rightarrow> state" where
  "emit e s = s\<lparr>effects := effects s @ [e]\<rparr>"

definition console_error :: "string \<Rightarrow> state \<Rightarrow> state" where
  "console_error label s = emit (ConsoleError label) s"

definition showNotification :: "string \<Rightarrow> string \<Rightarrow> state \<Rightarrow> state" where
  "showNotification message type s = emit (Notify message type) s"

text \<open>How a pending \<^verbatim>\<open>ref(path).set(value)\<close> settles: the record is replaced by the
  value that was sent, or the promise rejects.\<close>

definition firebase_set_settled :: "outcome \<Rightarrow> string \<times> cart \<Rightarrow> state \<Rightarrow> completion" where
  "firebase_set_settled ro req s =
     (case ro of
        Succeeds \<Rightarrow> (None, s\<lparr>firebase := (firebase s)(fst req \<mapsto> snd req)\<rparr>)
      | Fails \<Rightarrow> (Some FirebaseError, s))"

text \<open>What \<^verbatim>\<open>ref(path).once('value')\<close> resolves to: the snapshot of the record at the
  path (\<^verbatim>\<open>exists()\<close> is false for \<open>None\<close>), or a rejection.\<close>

definition firebase_once :: "outcome \<Rightarrow> string \<Rightarrow> state \<Rightarrow> exn + cart option" where
  "firebase_once ro path s =
     (case ro of Succeeds \<Rightarrow> Inr (firebase s path) | Fails \<Rightarrow> Inl FirebaseError)"

definition localStorage_setItem :: "outcome \<Rightarrow> string \<Rightarrow> json \<Rightarrow> state \<Rightarrow> completion" where
  "localStorage_setItem lo key v s =
     (let s1 = emit (LocalSet key v) s in
      case lo of
        Succeeds \<Rightarrow> (None, s1\<lparr>localStorage := (localStorage s1)(key \<mapsto> v)\<rparr>)
      | Fails \<Rightarrow> (Some StorageError, s1))"

section \<open>Session\<close>

text \<open>\<^verbatim>\<open>String.prototype.toLowerCase\<close> on code units below 256: the letters A to Z and
  the capital letters of the Latin-1 block (192 to 222, without the multiplication sign
  215) move up by 32; every other code unit is left as it is.\<close>

definition is_upper :: "char \<Rightarrow> bool" where
  "is_upper c = (let n = (of_char c :: nat) in
                 (65 \<le> n \<and> n \<le> 90) \<or> (192 \<le> n \<and> n \<le> 222 \<and> n \<noteq> 215))"

definition toLowerCase_char :: "char \<Rightarrow> char" where
  "toLowerCase_char c = (if is_upper c then char_of ((of_char c :: nat) + 32) else c)"

definition toLowerCase :: "string \<Rightarrow> string" where
  "toLowerCase str = map toLowerCase_char str"

definition requireAuthForAction :: "string \<Rightarrow> state \<Rightarrow> bool \<times> state" where
  "requireAuthForAction action s =
     (case currentUser s of
        None \<Rightarrow> (False, showNotification (''Please log in to '' @ action) ''info'' s)
      | Some u \<Rightarrow> (True, s))"

text \<open>
  \<^verbatim>\<open>loadUserCart\<close> awaits the remote read, and other callbacks run while it waits. The
  function is therefore given in its two parts: what runs up to the \<^verbatim>\<open>await\<close>, which
  returns the path whose read is pending (none when the function returned at once), and
  what runs when the read resolves, on the state the store has by then.
\<close>

definition loadUserCart_begin :: "state \<Rightarrow> state \<times> string option" where
  "loadUserCart_begin s =
     (case currentUser s of
        None \<Rightarrow> (s, None)
      | Some u \<Rightarrow> (emit (RemoteGet (''carts/'' @ uid u)) s, Some (''carts/'' @ uid u)))"

definition loadUserCart_resume :: "exn + cart option \<Rightarrow> state \<Rightarrow> state" where
  "loadUserCart_resume r s =
     (case r of
        Inr (Some v) \<Rightarrow> s\<lparr>cart := v\<rparr>
      | Inr None \<Rightarrow> s\<lparr>cart := []\<rparr>
      | Inl error \<Rightarrow> (console_error ''Error loading user cart:'' s)\<lparr>cart := []\<rparr>)"

text \<open>With no callback in between, the read sees the remote database as it is.\<close>

definition loadUserCart :: "outcome \<Rightarrow> state \<Rightarrow> state" where
  "loadUserCart ro s =
     (case loadUserCart_begin s of
        (s1, None) \<Rightarrow> s1
      | (s1, Some path) \<Rightarrow> loadUserCart_resume (firebase_once ro path s1) s1)"

text \<open>\<^verbatim>\<open>handleUserLogin\<close> sets the session, starts the load and, once the load is done,
  greets the user.\<close>

definition handleUserLogin_begin :: "user \<Rightarrow> state \<Rightarrow> state \<times> string option" where
  "handleUserLogin_begin u s =
     loadUserCart_begin
       (s\<lparr>currentUser := Some u,
          isAdmin := (toLowerCase (email u) = toLowerCase (adminEmail s))\<rparr>)"

definition handleUserLogin_greet :: "user \<Rightarrow> state \<Rightarrow> state" where
  "handleUserLogin_greet u s =
     (if isAdmin s
      then showNotification ''Welcome Admin! Dashboard activated.'' ''success'' s
      else showNotification (''Welcome '' @ email u @ ''!'') ''success'' s)"

definition handleUserLogin_resume :: "user \<Rightarrow> exn + cart option \<Rightarrow> state \<Rightarrow> state" where
  "handleUserLogin_resume u r s = handleUserLogin_greet u (loadUserCart_resume r s)"

definition handleUserLogin :: "outcome \<Rightarrow> user \<Rightarrow> state \<Rightarrow> state" where
  "handleUserLogin ro u s =
     (case handleUserLogin_begin u s of
        (s1, None) \<Rightarrow> handleUserLogin_greet u s1
      | (s1, Some path) \<Rightarrow> handleUserLogin_resume u (firebase_once ro path s1) s1)"

definition handleUserLogout :: "state \<Rightarrow> state" where
  "handleUserLogout s = s\<lparr>currentUser := None, isAdmin := False, cart := []\<rparr>"

text \<open>\<^verbatim>\<open>forceAdminMode\<close>, the debug method behind \<^verbatim>\<open>window.forceAdmin\<close>.\<close>

definition forceAdminMode :: "state \<Rightarrow> state" where
  "forceAdminMode s = showNotification ''Admin mode forced for testing'' ''warning'' (s\<lparr>isAdmin := True\<rparr>)"

section \<open>Persistence of the cart\<close>

text \<open>
  \<^verbatim>\<open>saveCart\<close> awaits the remote write, so it is given in two parts as well. Up to the
  \<^verbatim>\<open>await\<close> it sends the cart under the path of the current user; the pending request
  is the path and the cart sent. When the write settles, on the state the store has by
  then, a rejection enters the \<^verbatim>\<open>catch\<close> block: the write to \<^verbatim>\<open>localStorage\<close> inside its
  own \<^verbatim>\<open>try\<close> reads \<^verbatim>\<open>this.currentUser.uid\<close> and \<^verbatim>\<open>this.cart\<close> again. Reading the id
  throws a \<^verbatim>\<open>TypeError\<close> when the user is gone, which the inner \<^verbatim>\<open>catch\<close> takes as well.
\<close>

definition saveCart_begin :: "state \<Rightarrow> state \<times> (string \<times> cart) option" where
  "saveCart_begin s =
     (case currentUser s of
        None \<Rightarrow> (s, None)
      | Some u \<Rightarrow>
          (emit (RemoteSet (''carts/'' @ uid u) (cart s)) s, Some (''carts/'' @ uid u, cart s)))"

definition saveCart_fallback :: "outcome \<Rightarrow> state \<Rightarrow> completion" where
  "saveCart_fallback lo s =
     (case currentUser s of
        None \<Rightarrow> (Some TypeError, s)
      | Some u \<Rightarrow> localStorage_setItem lo (''favsCart_'' @ uid u) (JSON_cart (cart s)) s)"

definition saveCart_resume :: "outcome \<Rightarrow> outcome \<Rightarrow> string \<times> cart \<Rightarrow> state \<Rightarrow> completion" where
  "saveCart_resume ro lo req s =
     try_catch (firebase_set_settled ro req s)
       (\<lambda>error s1.
          try_catch (saveCart_fallback lo (console_error ''Error saving user cart to Firebase:'' s1))
            (\<lambda>localError s2. normal (console_error ''Error saving to localStorage:'' s2)))"

text \<open>With no callback in between, the write settles on the state the first part left.\<close>

definition saveCart :: "outcome \<Rightarrow> outcome \<Rightarrow> state \<Rightarrow> completion" where
  "saveCart ro lo s =
     (case saveCart_begin s of
        (s1, None) \<Rightarrow> normal s1
      | (s1, Some req) \<Rightarrow> saveCart_resume ro lo req s1)"

section \<open>Cart mutators\<close>

text \<open>\<^verbatim>\<open>find\<close> returns the first matching object of the array and the source then
  assigns to a field of it: the first matching element of the list is replaced.\<close>

fun update_first :: "('a \<Rightarrow> bool) \<Rightarrow> ('a \<Rightarrow> 'a) \<Rightarrow> 'a list \<Rightarrow> 'a list" where
  "update_first P f [] = []"
| "update_first P f (x # xs) = (if P x then f x # xs else x # update_first P f xs)"

definition new_line :: "product \<Rightarrow> cart_item" where
  "new_line p =
     \<lparr>id' = id' p, name = name p, price = price p, image_url = image_url p,
      category = category p, description = description p, stock = stock p, quantity = Finite 1\<rparr>"

text \<open>\<^verbatim>\<open>this.products[category]\<close> is \<^verbatim>\<open>undefined\<close> for a category the catalogue does not
  have, and calling \<^verbatim>\<open>find\<close> on it throws.\<close>

definition addToCart :: "outcome \<Rightarrow> outcome \<Rightarrow> int \<Rightarrow> string \<Rightarrow> state \<Rightarrow> completion" where
  "addToCart ro lo productId cat s =
     (case requireAuthForAction ''add items to cart'' s of
        (False, s1) \<Rightarrow> normal s1
      | (True, s1) \<Rightarrow>
          (case products s1 cat of
             None \<Rightarrow> (Some TypeError, s1)
           | Some ps \<Rightarrow>
               (case find (\<lambda>p. id' p = productId) ps of
                  None \<Rightarrow> normal s1
                | Some p \<Rightarrow>
                    and_then
                      (saveCart ro lo
                         (case find (\<lambda>item. id' item = productId) (cart s1) of
                            Some existingItem \<Rightarrow>
                              s1\<lparr>cart := update_first (\<lambda>item. id' item = productId)
                                            (\<lambda>item. item\<lparr>quantity := js_plus (quantity item) 1\<rparr>)
                                            (cart s1)\<rparr>
                          | None \<Rightarrow> s1\<lparr>cart := cart s1 @ [new_line p]\<rparr>))
                      (\<lambda>s2. normal (showNotification (''Added '' @ name p @ '' to cart!'') ''success'' s2)))))"

definition removeFromCart :: "outcome \<Rightarrow> outcome \<Rightarrow> int \<Rightarrow> state \<Rightarrow> completion" where
  "removeFromCart ro lo productId s =
     (case currentUser s of
        None \<Rightarrow> normal (showNotification ''Please log in to manage cart'' ''error'' s)
      | Some u \<Rightarrow>
          and_then
            (saveCart ro lo (s\<lparr>cart := filter (\<lambda>item. id' item \<noteq> productId) (cart s)\<rparr>))
            (\<lambda>s1. normal (showNotification ''Item removed from cart'' ''info'' s1)))"

definition updateQuantity :: "outcome \<Rightarrow> outcome \<Rightarrow> int \<Rightarrow> int \<Rightarrow> state \<Rightarrow> completion" where
  "updateQuantity ro lo productId change s =
     (case currentUser s of
        None \<Rightarrow> normal (showNotification ''Please log in to manage cart'' ''error'' s)
      | Some u \<Rightarrow>
          (case find (\<lambda>item. id' item = productId) (cart s) of
             None \<Rightarrow> normal s
           | Some item \<Rightarrow>
               (let s1 = s\<lparr>cart := update_first (\<lambda>item. id' item = productId)
                                     (\<lambda>item. item\<lparr>quantity := js_plus (quantity item) change\<rparr>)
                                     (cart s)\<rparr>
                in if le_zero (js_plus (quantity item) change)
                   then removeFromCart ro lo productId s1
                   else saveCart ro lo s1)))"

text \<open>\<^verbatim>\<open>clearCart\<close> asks the user with \<^verbatim>\<open>confirm\<close>; the answer is the parameter
  \<open>confirmed\<close>.\<close>

definition clearCart :: "outcome \<Rightarrow> outcome \<Rightarrow> bool \<Rightarrow> state \<Rightarrow> completion" where
  "clearCart ro lo confirmed s =
     (case currentUser s of
        None \<Rightarrow> normal (showNotification ''Please log in to manage cart'' ''error'' s)
      | Some u \<Rightarrow>
          if cart s = [] then normal (showNotification ''Cart is already empty'' ''info'' s)
          else if confirmed
          then and_then (saveCart ro lo (s\<lparr>cart := []\<rparr>))
                 (\<lambda>s1. normal (showNotification ''Cart cleared successfully'' ''success'' s1))
          else normal s)"

text \<open>The effects that are writes to a store.\<close>

fun is_write :: "effect \<Rightarrow> bool" where
  "is_write (RemoteSet path v) = True"
| "is_write (LocalSet key v) = True"
| "is_write e = False"

section \<open>Checkout\<close>

text \<open>
  \<^verbatim>\<open>handlePaymentSuccess\<close> runs when the payment gateway reports a payment. The answer
  of \<^verbatim>\<open>POST /verify-payment\<close> is either a rejected \<^verbatim>\<open>fetch\<close>, a body that is not JSON, or
  an object with \<^verbatim>\<open>success\<close>, an optional \<^verbatim>\<open>message\<close> and \<^verbatim>\<open>data\<close>.
\<close>

datatype verification =
    FetchRejected
  | JsonRejected
  | Result bool "string option" string

text \<open>What the outside world answers during one run of \<^verbatim>\<open>handlePaymentSuccess\<close>: the
  verification, the writes to \<^verbatim>\<open>localStorage\<close> and to the remote database, and the
  clock read by \<^verbatim>\<open>new Date().toISOString()\<close>.\<close>

record payment_world =
  verification_answer :: verification
  orders_write :: outcome
  customers_write :: outcome
  remote_write :: outcome
  cart_local_write :: outcome
  now :: string

definition message_of :: "exn \<Rightarrow> string" where
  "message_of e =
     (case e of
        Error m \<Rightarrow> m
      | TypeError \<Rightarrow> ''TypeError''
      | FirebaseError \<Rightarrow> ''FirebaseError''
      | StorageError \<Rightarrow> ''QuotaExceededError''
      | NetworkError \<Rightarrow> ''Failed to fetch'')"

text \<open>The request, \<^verbatim>\<open>response.json()\<close> and the test of \<^verbatim>\<open>success\<close>;
  \<^verbatim>\<open>message || 'Payment verification failed'\<close> takes the default for an absent or empty
  message.\<close>

definition verify_payment :: "verification \<Rightarrow> string \<Rightarrow> state \<Rightarrow> completion" where
  "verify_payment v reference s =
     (let s1 = emit (Fetch ''/verify-payment'' reference) s in
      case v of
        FetchRejected \<Rightarrow> (Some NetworkError, s1)
      | JsonRejected \<Rightarrow> (Some (Error ''Unexpected token''), s1)
      | Result success msg data \<Rightarrow>
          if \<not> success
          then (Some (Error (case msg of
                               None \<Rightarrow> ''Payment verification failed''
                             | Some m \<Rightarrow> if m = [] then ''Payment verification failed'' else m)), s1)
          else normal s1)"

definition verification_data :: "verification \<Rightarrow> string" where
  "verification_data v = (case v of Result success msg data \<Rightarrow> data | _ \<Rightarrow> [])"

definition new_order ::
  "payment_world \<Rightarrow> string \<Rightarrow> string \<Rightarrow> int \<Rightarrow> string \<Rightarrow> string \<Rightarrow> string \<Rightarrow> state \<Rightarrow> order" where
  "new_order w reference mail amount cname phone address s =
     \<lparr>order_id = reference, customerEmail = mail, customerName = cname,
      customerPhone = phone, deliveryAddress = address, items = cart s,
      order_total = amount, status = ''paid'', date = now w,
      paymentMethod = ''paystack'', verified = True,
      verificationData = verification_data (verification_answer w), backendVerified = True\<rparr>"

definition saveOrders :: "outcome \<Rightarrow> state \<Rightarrow> completion" where
  "saveOrders lo s = localStorage_setItem lo ''favsOrders'' (JSON_orders (orders s)) s"

definition saveCustomers :: "outcome \<Rightarrow> state \<Rightarrow> completion" where
  "saveCustomers lo s = localStorage_setItem lo ''favsCustomers'' (JSON_customers (customers s)) s"

definition updateCustomerStats :: "outcome \<Rightarrow> string \<Rightarrow> int \<Rightarrow> state \<Rightarrow> completion" where
  "updateCustomerStats lo mail amount s =
     (case find (\<lambda>c. customer_email c = mail) (customers s) of
        None \<Rightarrow> normal s
      | Some c \<Rightarrow>
          saveCustomers lo
            (s\<lparr>customers := update_first (\<lambda>c. customer_email c = mail)
                              (\<lambda>c. c\<lparr>customer_orders := js_plus (customer_orders c) 1,
                                     totalSpent := js_plus (totalSpent c) amount\<rparr>)
                              (customers s)\<rparr>))"

text \<open>The body of the \<^verbatim>\<open>try\<close> block, then the whole function with its \<^verbatim>\<open>catch\<close>.\<close>

definition handlePaymentSuccess_body ::
  "payment_world \<Rightarrow> string \<Rightarrow> string \<Rightarrow> int \<Rightarrow> string \<Rightarrow> string \<Rightarrow> string \<Rightarrow> state \<Rightarrow> completion" where
  "handlePaymentSuccess_body w reference mail amount cname phone address s =
     and_then
       (verify_payment (verification_answer w) reference
          (showNotification ''Verifying payment with secure backend...'' ''info'' s))
       (\<lambda>s1. and_then
          (saveOrders (orders_write w)
             ((showNotification ''Payment verified securely!'' ''success'' s1)
                \<lparr>orders := orders s1 @ [new_order w reference mail amount cname phone address s1]\<rparr>))
       (\<lambda>s2. and_then (updateCustomerStats (customers_write w) mail amount s2)
       (\<lambda>s3. and_then (saveCart (remote_write w) (cart_local_write w) (s3\<lparr>cart := []\<rparr>))
       (\<lambda>s4. normal
          (showNotification ''Payment verified and completed successfully!'' ''success'' s4)))))"

definition handlePaymentSuccess ::
  "payment_world \<Rightarrow> string \<Rightarrow> string \<Rightarrow> int \<Rightarrow> string \<Rightarrow> string \<Rightarrow> string \<Rightarrow> state \<Rightarrow> completion" where
  "handlePaymentSuccess w reference mail amount cname phone address s =
     try_catch (handlePaymentSuccess_body w reference mail amount cname phone address s)
       (\<lambda>error s1. normal
          (showNotification ''Items kept in cart for retry'' ''info''
             (showNotification (''Payment verification failed: '' @ message_of error) ''error''
                (console_error ''Payment verification error:'' s1))))"

text \<open>The state \<^verbatim>\<open>handlePaymentSuccess\<close> leaves behind.\<close>

definition after_payment ::
  "payment_world \<Rightarrow> string \<Rightarrow> string \<Rightarrow> int \<Rightarrow> string \<Rightarrow> string \<Rightarrow> string \<Rightarrow> state \<Rightarrow> state" where
  "after_payment w reference mail amount cname phone address s =
     snd (handlePaymentSuccess w reference mail amount cname phone address s)"

section \<open>The authentication manager\<close>

text \<open>
  \<^verbatim>\<open>AuthManager\<close> holds its own copy of the session. Its handlers pass the event on to
  \<^verbatim>\<open>window.store\<close> when the store exists; the call to the store's \<^verbatim>\<open>handleUserLogin\<close> is
  not awaited, so the store is left with its load pending. \<^verbatim>\<open>ADMIN_EMAIL\<close> is the global
  of the authentication script.
\<close>

record auth_manager =
  am_currentUser :: "user option"
  am_isAdmin :: bool

definition AuthManager_handleUserLogin ::
  "string \<Rightarrow> user \<Rightarrow> auth_manager \<times> state option
     \<Rightarrow> auth_manager \<times> (state \<times> string option) option" where
  "AuthManager_handleUserLogin ADMIN_EMAIL u sys =
     (case sys of (am, window_store) \<Rightarrow>
        (am\<lparr>am_currentUser := Some u,
            am_isAdmin := (toLowerCase (email u) = toLowerCase ADMIN_EMAIL)\<rparr>,
         map_option (handleUserLogin_begin u) window_store))"

definition AuthManager_handleUserLogout ::
  "auth_manager \<times> state option \<Rightarrow> auth_manager \<times> state option" where
  "AuthManager_handleUserLogout sys =
     (case sys of (am, window_store) \<Rightarrow>
        (am\<lparr>am_currentUser := None, am_isAdmin := False\<rparr>,
         map_option handleUserLogout window_store))"

section \<open>Sequences of cart calls\<close>

text \<open>The calls the page makes from its buttons, each with the answers of the remote
  database and of \<^verbatim>\<open>localStorage\<close> during the call. A call that throws rejects its own
  promise only; the next call finds the state the failed one left.\<close>

datatype call =
    AddToCart int string
  | UpdateQuantity int int
  | RemoveFromCart int

fun perform :: "outcome \<times> outcome \<times> call \<Rightarrow> state \<Rightarrow> state" where
  "perform (ro, lo, AddToCart productId cat) s = snd (addToCart ro lo productId cat s)"
| "perform (ro, lo, UpdateQuantity productId change) s = snd (updateQuantity ro lo productId change s)"
| "perform (ro, lo, RemoveFromCart productId) s = snd (removeFromCart ro lo productId s)"

fun run_calls :: "(outcome \<times> outcome \<times> call) list \<Rightarrow> state \<Rightarrow> state" where
  "run_calls [] s = s"
| "run_calls (c # cs) s = run_calls cs (perform c s)"

section \<open>Properties stated by the specification\<close>

text \<open>The cart invariant of the specification: at most one line for a product id, and
  every quantity at least 1.\<close>

definition cart_ok :: "cart \<Rightarrow> bool" where
  "cart_ok c = (distinct (map id' c) \<and> list_all (\<lambda>item. at_least_one (quantity item)) c)"

text \<open>A call left the cart and both stores alone, wrote to neither, and did not throw.\<close>

definition no_cart_effect :: "state \<Rightarrow> completion \<Rightarrow> bool" where
  "no_cart_effect s r =
     (fst r = None \<and> cart (snd r) = cart s \<and> firebase (snd r) = firebase s \<and>
      localStorage (snd r) = localStorage s \<and>
      filter is_write (effects (snd r)) = filter is_write (effects s))"

text \<open>Equality of strings up to the case of letters, said without
  \<^verbatim>\<open>toLowerCase\<close>: the same length, and at each position the same code unit or a
  capital letter and its small letter.\<close>

definition same_letter :: "char \<Rightarrow> char \<Rightarrow> bool" where
  "same_letter c d =
     (c = d \<or> (is_upper c \<and> (of_char d :: nat) = of_char c + 32)
            \<or> (is_upper d \<and> (of_char c :: nat) = of_char d + 32))"

definition equal_ignoring_case :: "string \<Rightarrow> string \<Rightarrow> bool" where
  "equal_ignoring_case a b = list_all2 same_letter a b"

text \<open>The cart a resolved read puts in memory.\<close>

definition loaded_cart :: "exn + cart option \<Rightarrow> cart" where
  "loaded_cart r = (case r of Inr (Some v) \<Rightarrow> v | Inr None \<Rightarrow> [] | Inl e \<Rightarrow> [])"

definition verification_succeeded :: "verification \<Rightarrow> bool" where
  "verification_succeeded v = (case v of Result success msg data \<Rightarrow> success | _ \<Rightarrow> False)"

text \<open>A product id has a line in a cart; a product id is in the catalogue under a
  category; the quantity of the line a cart has for a product id, if it has one.\<close>

definition in_cart :: "int \<Rightarrow> cart \<Rightarrow> bool" where
  "in_cart q c = (q \<in> set (map id' c))"

definition in_catalogue :: "state \<Rightarrow> string \<Rightarrow> int \<Rightarrow> bool" where
  "in_catalogue s cat q =
     (case products s cat of None \<Rightarrow> False | Some ps \<Rightarrow> q \<in> set (map id' ps))"

definition line_quantity :: "int \<Rightarrow> cart \<Rightarrow> number option" where
  "line_quantity q c = map_option quantity (find (\<lambda>item. id' item = q) c)"

text \<open>
  The schedule of the race between login and logout: \<^verbatim>\<open>handleUserLogin\<close> runs up to its
  \<^verbatim>\<open>await\<close>, \<^verbatim>\<open>handleUserLogout\<close> runs while the read is pending, then the read resolves
  against the remote database and \<^verbatim>\<open>handleUserLogin\<close> resumes.
\<close>

definition login_logout_then_load :: "outcome \<Rightarrow> user \<Rightarrow> state \<Rightarrow> state" where
  "login_logout_then_load ro u s =
     (case handleUserLogin_begin u s of
        (s1, None) \<Rightarrow> handleUserLogin_greet u (handleUserLogout s1)
      | (s1, Some path) \<Rightarrow>
          handleUserLogin_resume u (firebase_once ro path (handleUserLogout s1))
            (handleUserLogout s1))"

text \<open>The same for a save: \<^verbatim>\<open>saveCart\<close> runs up to its \<^verbatim>\<open>await\<close>,
  \<^verbatim>\<open>handleUserLogout\<close> runs while the write is pending, then the write settles.\<close>

definition save_logout_then_settle :: "outcome \<Rightarrow> outcome \<Rightarrow> state \<Rightarrow> completion" where
  "save_logout_then_settle ro lo s =
     (case saveCart_begin s of
        (s1, None) \<Rightarrow> normal (handleUserLogout s1)
      | (s1, Some req) \<Rightarrow> saveCart_resume ro lo req (handleUserLogout s1))"

section \<open>A concrete store\<close>

text \<open>The catalogue of \<^verbatim>\<open>getDefaultProducts\<close>.\<close>

definition getDefaultProducts :: "string \<rightharpoonup> product list" where
  "getDefaultProducts =
     [''clothing'' \<mapsto>
        [\<lparr>id' = 1, name = ''Designer T-Shirt'', price = 4500,
          image_url = ''https://images.unsplash.com/photo-1521572163474-6864f9cf17ab?w=400'',
          category = ''clothing'',
          description = ''Premium quality cotton t-shirt with unique design'', stock = Some 50\<rparr>,
         \<lparr>id' = 2, name = ''Casual Dress'', price = 8500,
          image_url = ''https://images.unsplash.com/photo-1595777457583-95e059d581b8?w=400'',
          category = ''clothing'',
          description = ''Elegant casual dress for everyday wear'', stock = Some 30\<rparr>,
         \<lparr>id' = 3, name = ''Denim Jeans'', price = 6500,
          image_url = ''https://images.unsplash.com/photo-1542272604-787c3835535d?w=400'',
          category = ''clothing'',
          description = ''Comfortable denim jeans perfect for casual wear'', stock = Some 25\<rparr>,
         \<lparr>id' = 4, name = ''Summer Blouse'', price = 5500,
          image_url = ''https://images.unsplash.com/photo-1594633312681-425c7b97ccd1?w=400'',
          category = ''clothing'',
          description = ''Light and breezy summer blouse'', stock = Some 40\<rparr>],
      ''service'' \<mapsto>
        [\<lparr>id' = 101, name = ''Classic Manicure'', price = 2500,
          image_url = ''https://images.unsplash.com/photo-1604654894610-df63bc536371?w=400'',
          category = ''service'',
          description = ''Professional classic manicure with nail care'', stock = None\<rparr>,
         \<lparr>id' = 102, name = ''Gel Nails'', price = 4500,
          image_url = ''https://images.unsplash.com/photo-1607778784676-3ed1c2b6e335?w=400'',
          category = ''service'',
          description = ''Long-lasting gel nail polish application'', stock = None\<rparr>,
         \<lparr>id' = 103, name = ''Nail Art Design'', price = 3500,
          image_url = ''https://images.unsplash.com/photo-1577083552431-6e5fd01988a3?w=400'',
          category = ''service'',
          description = ''Custom nail art designs and patterns'', stock = None\<rparr>,
         \<lparr>id' = 104, name = ''Spa Pedicure'', price = 5000,
          image_url = ''https://images.unsplash.com/photo-1519415510236-718bdfcd89c8?w=400'',
          category = ''service'',
          description = ''Relaxing spa pedicure with foot massage'', stock = None\<rparr>]]"

text \<open>The store as its constructor leaves it in a browser whose \<^verbatim>\<open>localStorage\<close> is
  empty, for a configured admin address and a remote database.\<close>

definition FavsBlingStore :: "string \<Rightarrow> (string \<rightharpoonup> cart) \<Rightarrow> state" where
  "FavsBlingStore config_admin_email db =
     \<lparr>products = getDefaultProducts, cart = [], orders = [], customers = [],
      adminEmail = config_admin_email, currentUser = None, isAdmin = False,
      firebase = db, localStorage = Map.empty, effects = []\<rparr>"

text \<open>The users and the line of the scenarios of the specification.\<close>

definition user1 :: user where
  "user1 = \<lparr>uid = ''user1'', email = ''a@b.com''\<rparr>"

definition tshirt_line :: cart_item where
  "tshirt_line =
     \<lparr>id' = 1, name = ''Designer T-Shirt'', price = 4500,
      image_url = ''https://images.unsplash.com/photo-1521572163474-6864f9cf17ab?w=400'',
      category = ''clothing'',
      description = ''Premium quality cotton t-shirt with unique design'', stock = Some 50,
      quantity = Finite 1\<rparr>"


text \<open>\<open>user1\<close> signed in on an empty remote database; the same after one
  \<^verbatim>\<open>addToCart\<close>, saved remotely, and after one whose remote write failed.\<close>

definition signed_in_store :: state where
  "signed_in_store = handleUserLogin Succeeds user1 (FavsBlingStore ''admin@x.com'' Map.empty)"

definition one_line_store :: state where
  "one_line_store = snd (addToCart Succeeds Succeeds 1 ''clothing'' signed_in_store)"

definition unsaved_cart_store :: state where
  "unsaved_cart_store = snd (addToCart Fails Succeeds 1 ''clothing'' signed_in_store)"

text \<open>\<open>user1\<close> after raising the quantity of the T-shirt by \<open>2 ^ 53 - 1\<close>.\<close>

definition big_quantity_store :: state where
  "big_quantity_store = snd (updateQuantity Succeeds Succeeds 1 9007199254740991 one_line_store)"

definition remote_with_user1_cart :: "string \<rightharpoonup> cart" where
  "remote_with_user1_cart = [''carts/user1'' \<mapsto> [tshirt_line]]"

definition admin_user :: user where
  "admin_user = \<lparr>uid = ''user2'', email = ''ADMIN@X.com''\<rparr>"

definition rejecting_world :: payment_world where
  "rejecting_world =
     \<lparr>verification_answer = Result False (Some ''Invalid transaction reference'') [],
      orders_write = Succeeds, customers_write = Succeeds, remote_write = Succeeds,
      cart_local_write = Succeeds, now = ''2024-01-01T00:00:00.000Z''\<rparr>"

definition accepting_world :: payment_world where
  "accepting_world =
     \<lparr>verification_answer = Result True None ''charge.success'',
      orders_write = Succeeds, customers_write = Succeeds, remote_write = Succeeds,
      cart_local_write = Succeeds, now = ''2024-01-01T00:00:00.000Z''\<rparr>"

section \<open>Auxiliary facts\<close>

subsection \<open>Lists\<close>

lemma find_Some_in_set: "find P xs = Some x \<Longrightarrow> x \<in> set xs"
  by (induction xs) (auto split: if_splits)

lemma find_Some_holds: "find P xs = Some x \<Longrightarrow> P x"
  by (induction xs) (auto split: if_splits)

lemma find_None_conv: "find P xs = None \<longleftrightarrow> (\<forall>x \<in> set xs. \<not> P x)"
  by (induction xs) auto

lemma length_update_first: "length (update_first P f xs) = length xs"
  by (induction xs) simp_all

lemma map_id_update_first:
  "(\<And>x. id' (f x) = id' x) \<Longrightarrow> map id' (update_first P f xs) = map id' xs"
  by (induction xs) simp_all

lemma list_all_update_first:
  "find P xs = Some x \<Longrightarrow> Q (f x) \<Longrightarrow> list_all Q xs \<Longrightarrow> list_all Q (update_first P f xs)"
  by (induction xs) (auto split: if_splits)

lemma filter_update_first:
  "(\<And>x. P x \<Longrightarrow> P (f x)) \<Longrightarrow>
   filter (\<lambda>x. \<not> P x) (update_first P f xs) = filter (\<lambda>x. \<not> P x) xs"
  by (induction xs) simp_all

lemma find_update_first_same:
  "(\<And>x. P x \<Longrightarrow> P (f x)) \<Longrightarrow> find P (update_first P f xs) = map_option f (find P xs)"
  by (induction xs) simp_all

lemma find_update_first_other:
  "(\<And>x. P x \<Longrightarrow> \<not> Q x \<and> \<not> Q (f x)) \<Longrightarrow> find Q (update_first P f xs) = find Q xs"
  by (induction xs) simp_all

subsection \<open>Numbers\<close>

lemma unit_of_pos: "0 < unit_of m"
  by (induction m rule: unit_of.induct) (subst unit_of.simps, simp)

lemma unit_of_le: "0 < m \<Longrightarrow> unit_of m \<le> m"
proof (induction m rule: unit_of.induct)
  case (1 m)
  show ?case
  proof (cases "m < 9007199254740992")
    case True
    then show ?thesis using 1(2) by (subst unit_of.simps) simp
  next
    case False
    then have "0 < m div 2" by simp
    then have "unit_of (m div 2) \<le> m div 2" using 1(1) False by simp
    then show ?thesis using False by (subst unit_of.simps) simp
  qed
qed

lemma unit_of_small: "m < 9007199254740992 \<Longrightarrow> unit_of m = 1"
  by (subst unit_of.simps) simp

lemma nearest_small: "\<bar>n\<bar> < 9007199254740992 \<Longrightarrow> nearest n = n"
  by (simp add: nearest_def unit_of_small)

lemma nearest_2_53: "nearest 9007199254740992 = 9007199254740992"
  by (simp add: nearest_def unit_of.simps)

lemma nearest_neg_2_53: "nearest (- 9007199254740992) = - 9007199254740992"
  by (simp add: nearest_def unit_of.simps)

lemma nearest_exact: "\<bar>n\<bar> \<le> 9007199254740992 \<Longrightarrow> nearest n = n"
proof -
  assume "\<bar>n\<bar> \<le> 9007199254740992"
  then consider "\<bar>n\<bar> < 9007199254740992" | "n = 9007199254740992" | "n = - 9007199254740992"
    by linarith
  then show ?thesis
    by cases (simp_all add: nearest_small nearest_2_53 nearest_neg_2_53)
qed

lemma nearest_pos:
  assumes "1 \<le> n"
  shows "1 \<le> nearest n"
proof -
  define u where "u = unit_of \<bar>n\<bar>"
  have u: "0 < u" "u \<le> n"
    using unit_of_pos [of "\<bar>n\<bar>"] unit_of_le [of "\<bar>n\<bar>"] assms by (simp_all add: u_def)
  then have "0 < n div u"
    by (simp add: pos_imp_zdiv_pos_iff)
  then have q: "1 \<le> n div u" by simp
  have "1 * u \<le> (n div u) * u"
    using q u(1) by (intro mult_right_mono) simp_all
  then have "u \<le> (n div u) * u" by (simp only: mult_1)
  then have a: "1 \<le> (n div u) * u" using u(1) by linarith
  have b: "1 \<le> (n div u + 1) * u" using a u(1) by (simp add: distrib_right)
  show ?thesis using a b
    by (simp add: nearest_def Let_def u_def [symmetric])
qed

lemma nearest_nonpos:
  assumes "n \<le> 0"
  shows "nearest n \<le> 0"
proof -
  define u where "u = unit_of \<bar>n\<bar>"
  have u: "0 < u" using unit_of_pos [of "\<bar>n\<bar>"] by (simp add: u_def)
  have q: "n div u \<le> 0" using assms u by (simp add: div_nonpos_pos_le0)
  have a: "(n div u) * u \<le> 0" using q u by (simp add: mult_le_0_iff)
  show ?thesis
  proof (cases "n div u = 0")
    case True
    then have "n mod u = n" using mult_div_mod_eq [of u n] by simp
    moreover have "0 \<le> n mod u" using u by simp
    ultimately have "n mod u = 0" using assms by simp
    then show ?thesis using True u
      by (simp add: nearest_def Let_def u_def [symmetric])
  next
    case False
    then have "n div u + 1 \<le> 0" using q by simp
    then have "(n div u + 1) * u \<le> 0" using u by (simp add: mult_le_0_iff)
    then show ?thesis using a
      by (simp add: nearest_def Let_def u_def [symmetric])
  qed
qed

lemma at_least_one_round_double: "1 \<le> n \<Longrightarrow> at_least_one (round_double n)"
  using nearest_pos [of n]
  by (auto simp: at_least_one_def round_double_def)

lemma le_zero_round_double: "le_zero (round_double n) \<longleftrightarrow> n \<le> 0"
  using nearest_pos [of n] nearest_nonpos [of n]
  by (cases "n \<le> 0") (auto simp: le_zero_def round_double_def)

lemma below_overflow: "(9007199254740992 :: int) < 2 ^ 1024"
  by simp

lemma round_double_exact: "\<bar>n\<bar> \<le> 9007199254740992 \<Longrightarrow> round_double n = Finite n"
proof -
  assume a: "\<bar>n\<bar> \<le> 9007199254740992"
  then have "nearest n < 2 ^ 1024" and "- (2 ^ 1024) < nearest n"
    using below_overflow by (simp_all add: nearest_exact)
  then show ?thesis using nearest_exact [OF a]
    by (simp add: round_double_def)
qed

lemma at_least_one_js_plus_1: "at_least_one x \<Longrightarrow> at_least_one (js_plus x 1)"
proof (cases x)
  case (Finite a)
  assume "at_least_one x"
  then have "1 \<le> a + 1" using Finite by (simp add: at_least_one_def)
  then show ?thesis using Finite by (simp add: js_plus_def at_least_one_round_double)
qed (simp_all add: js_plus_def at_least_one_def)

lemma at_least_one_if_not_le_zero: "\<not> le_zero x \<Longrightarrow> at_least_one x"
  by (cases x) (simp_all add: le_zero_def at_least_one_def)

lemma js_plus_2_53: "js_plus (Finite 9007199254740992) 1 = Finite 9007199254740992"
  by (simp add: js_plus_def round_double_def nearest_def unit_of.simps)

lemma js_plus_to_2_53: "js_plus (Finite 1) 9007199254740991 = Finite 9007199254740992"
  by (simp add: js_plus_def round_double_exact)

subsection \<open>Lower case\<close>

lemma of_char_toLowerCase_char:
  "(of_char (toLowerCase_char c) :: nat) = (if is_upper c then of_char c + 32 else of_char c)"
  by (auto simp: toLowerCase_char_def is_upper_def Let_def)

lemma toLowerCase_char_eq_iff:
  "toLowerCase_char c = toLowerCase_char d \<longleftrightarrow> same_letter c d"
proof -
  have "toLowerCase_char c = toLowerCase_char d \<longleftrightarrow>
        (of_char (toLowerCase_char c) :: nat) = of_char (toLowerCase_char d)"
    by simp
  also have "\<dots> \<longleftrightarrow> (of_char c :: nat) = of_char d
       \<or> (is_upper c \<and> (of_char d :: nat) = of_char c + 32)
       \<or> (is_upper d \<and> (of_char c :: nat) = of_char d + 32)"
    unfolding of_char_toLowerCase_char by (auto simp: is_upper_def Let_def)
  finally show ?thesis by (simp add: same_letter_def)
qed

lemma toLowerCase_eq_iff:
  "toLowerCase a = toLowerCase b \<longleftrightarrow> equal_ignoring_case a b"
proof -
  have "toLowerCase a = toLowerCase b \<longleftrightarrow>
        list_all2 (=) (map toLowerCase_char a) (map toLowerCase_char b)"
    by (simp add: toLowerCase_def list.rel_eq)
  also have "\<dots> \<longleftrightarrow> list_all2 (\<lambda>c d. toLowerCase_char c = toLowerCase_char d) a b"
    by (simp add: list_all2_map1 list_all2_map2)
  finally show ?thesis
    by (simp add: equal_ignoring_case_def toLowerCase_char_eq_iff)
qed

subsection \<open>What \<^verbatim>\<open>saveCart\<close> leaves alone\<close>

lemma saveCart_fields [simp]:
  "fst (saveCart ro lo s) = None"
  "cart (snd (saveCart ro lo s)) = cart s"
  "currentUser (snd (saveCart ro lo s)) = currentUser s"
  "isAdmin (snd (saveCart ro lo s)) = isAdmin s"
  "products (snd (saveCart ro lo s)) = products s"
  "orders (snd (saveCart ro lo s)) = orders s"
  "customers (snd (saveCart ro lo s)) = customers s"
  "adminEmail (snd (saveCart ro lo s)) = adminEmail s"
  by (cases ro; cases lo;
      simp add: saveCart_def saveCart_fallback_def try_catch_def normal_def saveCart_begin_def saveCart_resume_def firebase_set_settled_def
        localStorage_setItem_def console_error_def emit_def split: option.splits)+

lemma saveCart_firebase_Fails: "firebase (snd (saveCart Fails lo s)) = firebase s"
  by (cases lo)
     (simp_all add: saveCart_def saveCart_fallback_def try_catch_def normal_def saveCart_begin_def saveCart_resume_def firebase_set_settled_def
       localStorage_setItem_def console_error_def emit_def split: option.splits)

lemma and_then_saveCart:
  "and_then (saveCart ro lo s) k = k (snd (saveCart ro lo s))"
  using saveCart_fields(1) [of ro lo s]
  by (cases "saveCart ro lo s") (simp add: and_then_def)

subsection \<open>The mutators on the cart and the session\<close>

lemma removeFromCart_cart:
  "cart (snd (removeFromCart ro lo productId s)) =
     (if currentUser s = None then cart s else filter (\<lambda>item. id' item \<noteq> productId) (cart s))"
  by (simp add: removeFromCart_def normal_def and_then_saveCart showNotification_def emit_def
      split: option.splits)

lemma addToCart_currentUser: "currentUser (snd (addToCart ro lo productId cat s)) = currentUser s"
  by (simp add: addToCart_def requireAuthForAction_def normal_def and_then_saveCart
      showNotification_def emit_def split: option.splits)

lemma removeFromCart_currentUser:
  "currentUser (snd (removeFromCart ro lo productId s)) = currentUser s"
  by (simp add: removeFromCart_def normal_def and_then_saveCart showNotification_def emit_def
      split: option.splits)

lemma updateQuantity_currentUser:
  "currentUser (snd (updateQuantity ro lo productId change s)) = currentUser s"
  by (simp add: updateQuantity_def normal_def showNotification_def emit_def Let_def
      removeFromCart_currentUser split: option.splits)

lemma perform_currentUser: "currentUser (perform c s) = currentUser s"
  by (cases "(c, s)" rule: perform.cases)
     (simp_all add: addToCart_currentUser removeFromCart_currentUser updateQuantity_currentUser)

lemma run_calls_currentUser: "currentUser (run_calls cs s) = currentUser s"
  by (induction cs arbitrary: s) (simp_all add: perform_currentUser)

lemma addToCart_cart_ok:
  assumes "cart_ok (cart s)"
  shows "cart_ok (cart (snd (addToCart ro lo productId cat s)))"
proof (cases "currentUser s")
  case None
  then show ?thesis using assms
    by (simp add: addToCart_def requireAuthForAction_def normal_def showNotification_def emit_def)
next
  case (Some u)
  show ?thesis
  proof (cases "products s cat")
    case None
    then show ?thesis using assms Some
      by (simp add: addToCart_def requireAuthForAction_def)
  next
    case ps: (Some ps)
    show ?thesis
    proof (cases "find (\<lambda>p. id' p = productId) ps")
      case None
      then show ?thesis using assms Some ps
        by (simp add: addToCart_def requireAuthForAction_def normal_def)
    next
      case p: (Some p)
      then have idp: "id' p = productId"
        by (auto dest: find_Some_holds)
      show ?thesis
      proof (cases "find (\<lambda>item. id' item = productId) (cart s)")
        case None
        then have "productId \<notin> set (map id' (cart s))"
          by (auto simp: find_None_conv)
        then show ?thesis using assms Some ps p None idp
          by (simp add: addToCart_def requireAuthForAction_def normal_def and_then_saveCart
              showNotification_def emit_def cart_ok_def new_line_def at_least_one_def)
      next
        case l: (Some l)
        then have "at_least_one (quantity l)" using assms
          by (auto simp: cart_ok_def list_all_iff dest: find_Some_in_set)
        then have "list_all (\<lambda>item. at_least_one (quantity item))
                     (update_first (\<lambda>item. id' item = productId)
                        (\<lambda>item. item\<lparr>quantity := js_plus (quantity item) 1\<rparr>) (cart s))"
          using assms l
          by (intro list_all_update_first [where x = l])
             (simp_all add: cart_ok_def at_least_one_js_plus_1)
        then show ?thesis using assms Some ps p l
          by (simp add: addToCart_def requireAuthForAction_def normal_def and_then_saveCart
              showNotification_def emit_def cart_ok_def map_id_update_first)
      qed
    qed
  qed
qed

lemma removeFromCart_cart_ok:
  assumes "cart_ok (cart s)"
  shows "cart_ok (cart (snd (removeFromCart ro lo productId s)))"
  using assms
  by (auto simp: removeFromCart_cart cart_ok_def distinct_map_filter list_all_iff)

lemma updateQuantity_cart_ok:
  assumes "cart_ok (cart s)"
  shows "cart_ok (cart (snd (updateQuantity ro lo productId change s)))"
proof (cases "currentUser s")
  case None
  then show ?thesis using assms
    by (simp add: updateQuantity_def normal_def showNotification_def emit_def)
next
  case (Some u)
  show ?thesis
  proof (cases "find (\<lambda>item. id' item = productId) (cart s)")
    case None
    then show ?thesis using assms Some by (simp add: updateQuantity_def normal_def)
  next
    case l: (Some l)
    let ?c = "update_first (\<lambda>item. id' item = productId)
                (\<lambda>item. item\<lparr>quantity := js_plus (quantity item) change\<rparr>) (cart s)"
    show ?thesis
    proof (cases "le_zero (js_plus (quantity l) change)")
      case True
      have "filter (\<lambda>item. id' item \<noteq> productId) ?c
              = filter (\<lambda>item. id' item \<noteq> productId) (cart s)"
        by (rule filter_update_first) simp
      then show ?thesis using assms Some l True
        by (auto simp: updateQuantity_def removeFromCart_cart cart_ok_def distinct_map_filter
            list_all_iff)
    next
      case False
      then have "list_all (\<lambda>item. at_least_one (quantity item)) ?c"
        using assms l
        by (intro list_all_update_first [where x = l])
           (simp_all add: cart_ok_def at_least_one_if_not_le_zero)
      then show ?thesis using assms Some l False
        by (simp add: updateQuantity_def cart_ok_def map_id_update_first)
    qed
  qed
qed

lemma perform_cart_ok: "cart_ok (cart s) \<Longrightarrow> cart_ok (cart (perform c s))"
  by (cases "(c, s)" rule: perform.cases)
     (simp_all add: addToCart_cart_ok removeFromCart_cart_ok updateQuantity_cart_ok)

lemma run_calls_cart_ok: "cart_ok (cart s) \<Longrightarrow> cart_ok (cart (run_calls cs s))"
  by (induction cs arbitrary: s) (simp_all add: perform_cart_ok)

lemma addToCart_existing:
  assumes "currentUser s = Some u" and "in_catalogue s cat productId"
    and "in_cart productId (cart s)"
  shows "cart (snd (addToCart ro lo productId cat s)) =
           update_first (\<lambda>item. id' item = productId)
             (\<lambda>item. item\<lparr>quantity := js_plus (quantity item) 1\<rparr>) (cart s)"
proof -
  obtain ps where ps: "products s cat = Some ps" and "productId \<in> set (map id' ps)"
    using assms(2) by (auto simp: in_catalogue_def split: option.splits)
  then obtain p where p: "find (\<lambda>p. id' p = productId) ps = Some p"
    by (cases "find (\<lambda>p. id' p = productId) ps") (auto simp: find_None_conv)
  obtain l where l: "find (\<lambda>item. id' item = productId) (cart s) = Some l"
    using assms(3)
    by (cases "find (\<lambda>item. id' item = productId) (cart s)")
       (auto simp: find_None_conv in_cart_def)
  show ?thesis using assms(1) ps p l
    by (simp add: addToCart_def requireAuthForAction_def normal_def and_then_saveCart
        showNotification_def emit_def)
qed

subsection \<open>The concrete stores\<close>

lemma signed_in_store_eval:
  "signed_in_store =
     \<lparr>products = getDefaultProducts, cart = [], orders = [], customers = [],
      adminEmail = ''admin@x.com'', currentUser = Some user1, isAdmin = False,
      firebase = Map.empty, localStorage = Map.empty,
      effects = [RemoteGet ''carts/user1'', Notify ''Welcome a@b.com!'' ''success'']\<rparr>"
  by (simp add: signed_in_store_def handleUserLogin_def handleUserLogin_begin_def
      loadUserCart_begin_def handleUserLogin_resume_def handleUserLogin_greet_def
      loadUserCart_resume_def firebase_once_def FavsBlingStore_def showNotification_def emit_def
      user1_def toLowerCase_def toLowerCase_char_def is_upper_def)

lemma one_line_store_eval:
  "currentUser one_line_store = Some user1 \<and> cart one_line_store = [tshirt_line] \<and>
   products one_line_store = getDefaultProducts \<and> orders one_line_store = [] \<and>
   customers one_line_store = []"
  by (simp add: one_line_store_def signed_in_store_eval addToCart_def requireAuthForAction_def
      getDefaultProducts_def and_then_saveCart normal_def showNotification_def emit_def
      new_line_def tshirt_line_def)

lemma one_line_store_localStorage:
  "localStorage one_line_store = Map.empty \<and>
   filter is_write (effects one_line_store) = [RemoteSet ''carts/user1'' [tshirt_line]]"
  by (simp add: one_line_store_def signed_in_store_eval addToCart_def requireAuthForAction_def
      getDefaultProducts_def and_then_def normal_def showNotification_def emit_def
      new_line_def tshirt_line_def saveCart_def saveCart_begin_def saveCart_resume_def
      firebase_set_settled_def try_catch_def user1_def)

lemma unsaved_cart_store_eval:
  "currentUser unsaved_cart_store = Some user1 \<and>
   cart unsaved_cart_store = [tshirt_line] \<and>
   firebase unsaved_cart_store = Map.empty"
  by (simp add: unsaved_cart_store_def signed_in_store_eval addToCart_def
      requireAuthForAction_def getDefaultProducts_def and_then_saveCart normal_def
      showNotification_def emit_def new_line_def tshirt_line_def saveCart_firebase_Fails)

lemma big_quantity_store_eval:
  "currentUser big_quantity_store = Some user1 \<and>
   cart big_quantity_store = [tshirt_line\<lparr>quantity := Finite 9007199254740992\<rparr>] \<and>
   products big_quantity_store = getDefaultProducts"
  using one_line_store_eval
  by (simp add: big_quantity_store_def updateQuantity_def tshirt_line_def js_plus_to_2_53
      le_zero_def)

subsection \<open>Payment verification\<close>

lemma verify_payment_rejects:
  "\<not> verification_succeeded v \<Longrightarrow>
   \<exists>e. verify_payment v reference s = (Some e, emit (Fetch ''/verify-payment'' reference) s)"
  by (cases v) (simp_all add: verify_payment_def verification_succeeded_def)

lemma verify_payment_accepts:
  "verification_succeeded v \<Longrightarrow>
   verify_payment v reference s = (None, emit (Fetch ''/verify-payment'' reference) s)"
  by (cases v) (simp_all add: verify_payment_def verification_succeeded_def normal_def)

lemma handlePaymentSuccess_returns:
  "fst (handlePaymentSuccess w reference mail amount cname phone address s) = None"
  by (cases "handlePaymentSuccess_body w reference mail amount cname phone address s")
     (simp add: handlePaymentSuccess_def try_catch_def normal_def split: option.splits)

lemma handlePaymentSuccess_rejected:
  assumes "\<not> verification_succeeded (verification_answer w)"
  shows "\<exists>e. snd (handlePaymentSuccess w reference mail amount cname phone address s) =
           showNotification ''Items kept in cart for retry'' ''info''
             (showNotification (''Payment verification failed: '' @ message_of e) ''error''
               (console_error ''Payment verification error:''
                 (emit (Fetch ''/verify-payment'' reference)
                   (showNotification ''Verifying payment with secure backend...'' ''info'' s))))"
proof -
  obtain e where "verify_payment (verification_answer w) reference
          (showNotification ''Verifying payment with secure backend...'' ''info'' s)
        = (Some e, emit (Fetch ''/verify-payment'' reference)
             (showNotification ''Verifying payment with secure backend...'' ''info'' s))"
    using verify_payment_rejects [OF assms] by blast
  then show ?thesis
    by (intro exI [of _ e])
       (simp add: handlePaymentSuccess_def handlePaymentSuccess_body_def and_then_def
         try_catch_def normal_def)
qed

lemma handlePaymentSuccess_accepted:
  assumes "verification_succeeded (verification_answer w)"
    and "orders_write w = Succeeds" and "customers_write w = Succeeds"
  shows "orders (snd (handlePaymentSuccess w reference mail amount cname phone address s)) =
           orders s @ [new_order w reference mail amount cname phone address s] \<and>
         cart (snd (handlePaymentSuccess w reference mail amount cname phone address s)) = [] \<and>
         (currentUser s = Some u \<longrightarrow>
            RemoteSet (''carts/'' @ uid u) []
              \<in> set (effects (snd (handlePaymentSuccess w reference mail amount cname phone
                                    address s))))"
  using assms verify_payment_accepts [OF assms(1)]
  by (cases "remote_write w"; cases "cart_local_write w")
     (simp_all add: handlePaymentSuccess_def handlePaymentSuccess_body_def and_then_def
        try_catch_def normal_def saveOrders_def updateCustomerStats_def saveCustomers_def
        localStorage_setItem_def showNotification_def emit_def new_order_def
        saveCart_def saveCart_fallback_def saveCart_begin_def saveCart_resume_def firebase_set_settled_def console_error_def
        split: option.splits)

section \<open>Mutators while signed out\<close>

text \<open>
  Claim C1. No cart mutation is applied while no user is signed in: each of
  \<^verbatim>\<open>addToCart\<close>, \<^verbatim>\<open>removeFromCart\<close>, \<^verbatim>\<open>updateQuantity\<close> and \<^verbatim>\<open>clearCart\<close>, called while
  \<^verbatim>\<open>currentUser\<close> is absent, returns without throwing, leaves the cart in memory, the remote
  database and \<^verbatim>\<open>localStorage\<close> as they were, and adds no write to the trace, whatever its
  arguments and whatever the outside world would have answered.
\<close>

theorem signed_out_mutators_leave_cart_and_stores:
  assumes "currentUser s = None"
  shows "no_cart_effect s (addToCart ro lo productId cat s) \<and>
         no_cart_effect s (removeFromCart ro lo productId s) \<and>
         no_cart_effect s (updateQuantity ro lo productId change s) \<and>
         no_cart_effect s (clearCart ro lo confirmed s)"
  using assms
  by (simp add: no_cart_effect_def addToCart_def removeFromCart_def updateQuantity_def
      clearCart_def requireAuthForAction_def showNotification_def emit_def normal_def)

text \<open>The theorem at a signed-out store that holds one line in memory.\<close>

theorem signed_out_mutators_witness:
  "currentUser ((FavsBlingStore ''admin@x.com'' Map.empty)\<lparr>cart := [tshirt_line]\<rparr>) = None \<and>
   no_cart_effect ((FavsBlingStore ''admin@x.com'' Map.empty)\<lparr>cart := [tshirt_line]\<rparr>)
     (addToCart Succeeds Succeeds 1 ''clothing''
        ((FavsBlingStore ''admin@x.com'' Map.empty)\<lparr>cart := [tshirt_line]\<rparr>)) \<and>
   no_cart_effect ((FavsBlingStore ''admin@x.com'' Map.empty)\<lparr>cart := [tshirt_line]\<rparr>)
     (removeFromCart Succeeds Succeeds 1
        ((FavsBlingStore ''admin@x.com'' Map.empty)\<lparr>cart := [tshirt_line]\<rparr>)) \<and>
   no_cart_effect ((FavsBlingStore ''admin@x.com'' Map.empty)\<lparr>cart := [tshirt_line]\<rparr>)
     (updateQuantity Succeeds Succeeds 1 (- 1)
        ((FavsBlingStore ''admin@x.com'' Map.empty)\<lparr>cart := [tshirt_line]\<rparr>)) \<and>
   no_cart_effect ((FavsBlingStore ''admin@x.com'' Map.empty)\<lparr>cart := [tshirt_line]\<rparr>)
     (clearCart Succeeds Succeeds True
        ((FavsBlingStore ''admin@x.com'' Map.empty)\<lparr>cart := [tshirt_line]\<rparr>))"
  using signed_out_mutators_leave_cart_and_stores
    [of "(FavsBlingStore ''admin@x.com'' Map.empty)\<lparr>cart := [tshirt_line]\<rparr>"
        Succeeds Succeeds 1 "''clothing''" "- 1" True]
  by (simp add: FavsBlingStore_def)

section \<open>The cart invariant\<close>

text \<open>
  Claim C2, as the specification states it, ends: adding a product already in the cart
  increments that line's quantity. The store applies \<^verbatim>\<open>quantity += 1\<close> to a double. After
  \<^verbatim>\<open>updateQuantity(1, 9007199254740991)\<close> the T-shirt of \<open>user1\<close> has quantity \<open>2 ^ 53\<close>,
  and \<^verbatim>\<open>addToCart\<close> leaves it there.
\<close>

theorem addToCart_at_2_53_counterexample:
  "currentUser big_quantity_store = Some user1 \<and>
   cart_ok (cart big_quantity_store) \<and>
   in_catalogue big_quantity_store ''clothing'' 1 \<and>
   in_cart 1 (cart big_quantity_store) \<and>
   line_quantity 1 (cart big_quantity_store) = Some (Finite 9007199254740992) \<and>
   line_quantity 1 (cart (snd (addToCart Succeeds Succeeds 1 ''clothing'' big_quantity_store)))
     = Some (Finite 9007199254740992)"
  by (simp add: big_quantity_store_eval cart_ok_def in_catalogue_def in_cart_def
      line_quantity_def getDefaultProducts_def tshirt_line_def at_least_one_def
      addToCart_def requireAuthForAction_def and_then_saveCart normal_def
      showNotification_def emit_def js_plus_2_53)

text \<open>
  Claim C2, amended. For every sequence of \<^verbatim>\<open>addToCart\<close>, \<^verbatim>\<open>updateQuantity\<close> and
  \<^verbatim>\<open>removeFromCart\<close> calls with whole finite arguments made while a user is signed in,
  whatever the stores answer, starting from a cart with at most one line for a product id
  and every quantity at least 1, the cart has that property after the sequence (hence after
  each of its calls), and the user is still signed in. Adding a product of the catalogue
  that is already in the cart appends nothing: the cart keeps its length and its product
  ids, \<^verbatim>\<open>quantity += 1\<close> is applied to the line of that product in the arithmetic of
  doubles and no other line changes. A quantity below \<open>2 ^ 53\<close> so goes up by exactly one;
  beyond, the sum is rounded to the nearest double.
\<close>

theorem cart_invariant_over_calls:
  assumes "currentUser s = Some u" and "cart_ok (cart s)"
  shows "cart_ok (cart (run_calls cs s)) \<and>
         currentUser (run_calls cs s) = Some u \<and>
         (in_catalogue s cat productId \<and> in_cart productId (cart s) \<longrightarrow>
            length (cart (snd (addToCart ro lo productId cat s))) = length (cart s) \<and>
            map id' (cart (snd (addToCart ro lo productId cat s))) = map id' (cart s) \<and>
            line_quantity q (cart (snd (addToCart ro lo productId cat s))) =
              (if q = productId then map_option (\<lambda>x. js_plus x 1) (line_quantity q (cart s))
               else line_quantity q (cart s)) \<and>
            (line_quantity productId (cart s) = Some (Finite n) \<and> n < 9007199254740992 \<longrightarrow>
               line_quantity productId (cart (snd (addToCart ro lo productId cat s)))
                 = Some (Finite (n + 1))))"
proof -
  have "cart_ok (cart (run_calls cs s))"
    using assms(2) by (rule run_calls_cart_ok)
  moreover have "currentUser (run_calls cs s) = Some u"
    using assms(1) by (simp add: run_calls_currentUser)
  moreover have "length (cart (snd (addToCart ro lo productId cat s))) = length (cart s) \<and>
            map id' (cart (snd (addToCart ro lo productId cat s))) = map id' (cart s) \<and>
            line_quantity q (cart (snd (addToCart ro lo productId cat s))) =
              (if q = productId then map_option (\<lambda>x. js_plus x 1) (line_quantity q (cart s))
               else line_quantity q (cart s)) \<and>
            (line_quantity productId (cart s) = Some (Finite n) \<and> n < 9007199254740992 \<longrightarrow>
               line_quantity productId (cart (snd (addToCart ro lo productId cat s)))
                 = Some (Finite (n + 1)))"
    if present: "in_catalogue s cat productId" "in_cart productId (cart s)"
  proof -
    let ?bump = "\<lambda>item :: cart_item. item\<lparr>quantity := js_plus (quantity item) 1\<rparr>"
    let ?c = "update_first (\<lambda>item. id' item = productId) ?bump (cart s)"
    have c: "cart (snd (addToCart ro lo productId cat s)) = ?c"
      using addToCart_existing [OF assms(1) present] .
    have same: "find (\<lambda>item. id' item = productId) ?c
                  = map_option ?bump (find (\<lambda>item. id' item = productId) (cart s))"
      by (rule find_update_first_same) simp
    have other: "find (\<lambda>item. id' item = q) ?c = find (\<lambda>item. id' item = q) (cart s)"
      if "q \<noteq> productId"
      using that by (intro find_update_first_other) simp
    have lq: "line_quantity q ?c =
              (if q = productId then map_option (\<lambda>x. js_plus x 1) (line_quantity q (cart s))
               else line_quantity q (cart s))"
      using same other by (simp add: line_quantity_def option.map_comp comp_def)
    have exact: "line_quantity productId ?c = Some (Finite (n + 1))"
      if n: "line_quantity productId (cart s) = Some (Finite n)" "n < 9007199254740992"
    proof -
      obtain l where l: "find (\<lambda>item. id' item = productId) (cart s) = Some l"
        and ql: "quantity l = Finite n"
        using n(1) by (auto simp: line_quantity_def)
      have "at_least_one (quantity l)"
        using assms(2) l by (auto simp: cart_ok_def list_all_iff dest: find_Some_in_set)
      then have "1 \<le> n" using ql by (simp add: at_least_one_def)
      then have "\<bar>n + 1\<bar> \<le> 9007199254740992" using n(2) by simp
      then have "js_plus (Finite n) 1 = Finite (n + 1)"
        by (simp add: js_plus_def round_double_exact)
      then show ?thesis using same l ql by (simp add: line_quantity_def)
    qed
    show ?thesis
      using c lq exact by (simp add: length_update_first map_id_update_first)
  qed
  ultimately show ?thesis by blast
qed

text \<open>The theorem for \<open>user1\<close> holding one T-shirt: four further calls, and the second
  T-shirt.\<close>

theorem cart_invariant_witness:
  "currentUser one_line_store = Some user1 \<and> cart_ok (cart one_line_store) \<and>
   cart_ok (cart (run_calls
      [(Fails, Succeeds, AddToCart 1 ''clothing''), (Succeeds, Succeeds, AddToCart 101 ''service''),
       (Succeeds, Fails, UpdateQuantity 1 (- 2)), (Succeeds, Succeeds, RemoveFromCart 7)]
      one_line_store)) \<and>
   in_catalogue one_line_store ''clothing'' 1 \<and> in_cart 1 (cart one_line_store) \<and>
   line_quantity 1 (cart one_line_store) = Some (Finite 1) \<and>
   (1 :: int) < 9007199254740992 \<and>
   length (cart (snd (addToCart Succeeds Succeeds 1 ''clothing'' one_line_store))) = 1 \<and>
   line_quantity 1 (cart (snd (addToCart Succeeds Succeeds 1 ''clothing'' one_line_store)))
     = Some (Finite 2)"
  using cart_invariant_over_calls [of one_line_store user1
      "[(Fails, Succeeds, AddToCart 1 ''clothing''), (Succeeds, Succeeds, AddToCart 101 ''service''),
       (Succeeds, Fails, UpdateQuantity 1 (- 2)), (Succeeds, Succeeds, RemoveFromCart 7)]"
      "''clothing''" 1 Succeeds Succeeds 1 1]
  by (simp add: one_line_store_eval cart_ok_def in_catalogue_def in_cart_def line_quantity_def
      getDefaultProducts_def tshirt_line_def at_least_one_def)

section \<open>A load that resolves after logout\<close>

text \<open>
  Claim C3, as the specification states it: when a login of a user starts a cart load and
  a logout clears the cart before the load resolves, the result of the load is discarded
  and the cart in memory remains empty. The store does not do this. With a T-shirt in the
  remote record of \<open>user1\<close>, the cart in memory is not empty once the delayed load has
  resolved.
\<close>

theorem stale_load_overwrites_logout_counterexample:
  "cart (login_logout_then_load Succeeds user1
           (FavsBlingStore ''admin@x.com'' remote_with_user1_cart)) \<noteq> []"
  by (simp add: login_logout_then_load_def handleUserLogin_begin_def loadUserCart_begin_def
      handleUserLogout_def handleUserLogin_resume_def loadUserCart_resume_def firebase_once_def
      handleUserLogin_greet_def showNotification_def emit_def FavsBlingStore_def
      remote_with_user1_cart_def user1_def)

text \<open>
  Claim C3, amended. A login of user \<open>u\<close> leaves a read of \<^verbatim>\<open>carts/\<close> followed by the id
  of \<open>u\<close> pending. A logout before the read resolves empties the cart in memory. When the
  read resolves, \<^verbatim>\<open>loadUserCart\<close> applies its result without looking at the session: the
  cart in memory becomes the remote record of \<open>u\<close> when there is one, and the empty
  sequence when there is none or the read fails. The session stays signed out.
\<close>

theorem stale_load_is_applied_after_logout:
  "snd (handleUserLogin_begin u s) = Some (''carts/'' @ uid u) \<and>
   cart (handleUserLogout (fst (handleUserLogin_begin u s))) = [] \<and>
   cart (handleUserLogin_resume u r (handleUserLogout (fst (handleUserLogin_begin u s)))) =
     loaded_cart r \<and>
   cart (login_logout_then_load ro u s) =
     (case ro of
        Succeeds \<Rightarrow> (case firebase s (''carts/'' @ uid u) of Some v \<Rightarrow> v | None \<Rightarrow> [])
      | Fails \<Rightarrow> []) \<and>
   currentUser (login_logout_then_load ro u s) = None \<and>
   isAdmin (login_logout_then_load ro u s) = False"
  by (cases ro; cases r)
     (simp_all add: login_logout_then_load_def handleUserLogin_begin_def loadUserCart_begin_def
       handleUserLogout_def handleUserLogin_resume_def loadUserCart_resume_def firebase_once_def
       handleUserLogin_greet_def showNotification_def emit_def console_error_def loaded_cart_def
       split: option.splits)

section \<open>A second login of the same user\<close>

text \<open>
  Claim C4, as the specification states it: \<^verbatim>\<open>handleUserLogin\<close> for the user who is
  already signed in leaves the session and the cart in memory unchanged. The store does
  all of a login again. \<open>user1\<close> holds a T-shirt whose remote write had failed; after a
  second \<^verbatim>\<open>handleUserLogin\<close> of \<open>user1\<close> the cart in memory is empty. And \<open>user1\<close>, whose
  \<^verbatim>\<open>isAdmin\<close> was forced to true by \<^verbatim>\<open>forceAdminMode\<close>, has it false after the second login.
\<close>

theorem relogin_reloads_cart_counterexample:
  "currentUser unsaved_cart_store = Some user1 \<and>
   cart unsaved_cart_store = [tshirt_line] \<and>
   cart (handleUserLogin Succeeds user1 unsaved_cart_store) = [] \<and>
   cart (handleUserLogin Succeeds user1 unsaved_cart_store) \<noteq> cart unsaved_cart_store \<and>
   currentUser (forceAdminMode signed_in_store) = Some user1 \<and>
   isAdmin (forceAdminMode signed_in_store) \<and>
   \<not> isAdmin (handleUserLogin Succeeds user1 (forceAdminMode signed_in_store))"
  by (simp add: unsaved_cart_store_eval signed_in_store_eval forceAdminMode_def
      handleUserLogin_def handleUserLogin_begin_def loadUserCart_begin_def
      handleUserLogin_resume_def handleUserLogin_greet_def loadUserCart_resume_def
      firebase_once_def showNotification_def emit_def
      user1_def toLowerCase_def toLowerCase_char_def is_upper_def)

text \<open>
  Claim C4, amended. \<^verbatim>\<open>handleUserLogin\<close> for the user who is already signed in leaves
  \<^verbatim>\<open>currentUser\<close> as it was and writes to neither store. It sets \<^verbatim>\<open>isAdmin\<close> again to the
  equality, up to the case of letters, of the user's address and the admin address, so
  \<^verbatim>\<open>isAdmin\<close> is unchanged exactly when it had that value (an \<^verbatim>\<open>isAdmin\<close> forced by
  \<^verbatim>\<open>forceAdminMode\<close> is lost). And it replaces the cart in memory by what the remote read
  delivers: the remote record of that user, or the empty sequence when there is none or
  the read fails. The cart in memory is unchanged only when it equals that.
\<close>

theorem relogin_keeps_session_reloads_cart:
  assumes "currentUser s = Some u"
  shows "currentUser (handleUserLogin ro u s) = currentUser s \<and>
         isAdmin (handleUserLogin ro u s) = equal_ignoring_case (email u) (adminEmail s) \<and>
         (isAdmin (handleUserLogin ro u s) = isAdmin s \<longleftrightarrow>
            isAdmin s = equal_ignoring_case (email u) (adminEmail s)) \<and>
         firebase (handleUserLogin ro u s) = firebase s \<and>
         localStorage (handleUserLogin ro u s) = localStorage s \<and>
         cart (handleUserLogin ro u s) =
           (case ro of
              Succeeds \<Rightarrow> (case firebase s (''carts/'' @ uid u) of Some v \<Rightarrow> v | None \<Rightarrow> [])
            | Fails \<Rightarrow> [])"
  using assms
  by (cases ro)
     (auto simp: handleUserLogin_def handleUserLogin_begin_def loadUserCart_begin_def
       handleUserLogin_resume_def loadUserCart_resume_def firebase_once_def
       handleUserLogin_greet_def showNotification_def emit_def console_error_def
       toLowerCase_eq_iff split: option.splits)

text \<open>The theorem for \<open>user1\<close> signed in with one T-shirt saved remotely: the second
  login of \<open>user1\<close> reads the record back and leaves \<^verbatim>\<open>isAdmin\<close> false.\<close>

theorem relogin_witness:
  "currentUser one_line_store = Some user1 \<and>
   currentUser (handleUserLogin Succeeds user1 one_line_store) = Some user1 \<and>
   \<not> isAdmin (handleUserLogin Succeeds user1 one_line_store) \<and>
   cart (handleUserLogin Succeeds user1 one_line_store) = [tshirt_line]"
  using relogin_keeps_session_reloads_cart [of one_line_store user1 Succeeds]
  by (simp add: one_line_store_def signed_in_store_eval addToCart_def requireAuthForAction_def
      getDefaultProducts_def and_then_def normal_def showNotification_def emit_def
      new_line_def tshirt_line_def saveCart_def try_catch_def saveCart_begin_def
      saveCart_resume_def firebase_set_settled_def
      user1_def equal_ignoring_case_def same_letter_def is_upper_def)

section \<open>Logout\<close>

text \<open>
  Claim C5. On logout the cart in memory is the empty sequence as soon as
  \<^verbatim>\<open>handleUserLogout\<close> returns (the function is synchronous: it has no pending part),
  \<^verbatim>\<open>currentUser\<close> is absent and \<^verbatim>\<open>isAdmin\<close> is false; nothing is written: the remote
  database, with the record of the user who was signed in, and \<^verbatim>\<open>localStorage\<close> are
  unchanged, and the trace gains no entry. The authentication manager, on the sign-out of
  the identity provider, clears its own copy of the session and hands the store exactly
  this logout.
\<close>

theorem logout_clears_cart_without_writing:
  "cart (handleUserLogout s) = [] \<and>
   currentUser (handleUserLogout s) = None \<and>
   isAdmin (handleUserLogout s) = False \<and>
   firebase (handleUserLogout s) = firebase s \<and>
   localStorage (handleUserLogout s) = localStorage s \<and>
   effects (handleUserLogout s) = effects s \<and>
   am_currentUser (fst (AuthManager_handleUserLogout (am, window_store))) = None \<and>
   am_isAdmin (fst (AuthManager_handleUserLogout (am, window_store))) = False \<and>
   snd (AuthManager_handleUserLogout (am, Some s)) = Some (handleUserLogout s)"
  by (simp add: handleUserLogout_def AuthManager_handleUserLogout_def)

section \<open>Saving the cart\<close>

text \<open>
  Claim C6, as the specification states it: with a user signed in, when the remote write
  fails, \<^verbatim>\<open>saveCart\<close> writes the cart to \<^verbatim>\<open>localStorage\<close> under the key of that user. The
  write is awaited, and the fallback reads the session again when it fails. \<open>user1\<close>, with
  one T-shirt, saves; a logout runs while the write is pending; the write fails: nothing is
  written to \<^verbatim>\<open>localStorage\<close>.
\<close>

theorem save_then_logout_no_fallback_counterexample:
  "currentUser one_line_store = Some user1 \<and>
   fst (save_logout_then_settle Fails Succeeds one_line_store) = None \<and>
   localStorage (snd (save_logout_then_settle Fails Succeeds one_line_store)) ''favsCart_user1''
     = None \<and>
   filter is_write (effects (snd (save_logout_then_settle Fails Succeeds one_line_store)))
     = filter is_write (effects one_line_store) @ [RemoteSet ''carts/user1'' [tshirt_line]]"
  by (simp add: save_logout_then_settle_def saveCart_begin_def saveCart_resume_def
      firebase_set_settled_def saveCart_fallback_def try_catch_def normal_def
      handleUserLogout_def console_error_def emit_def one_line_store_eval
      one_line_store_localStorage user1_def)

text \<open>
  Claim C6, amended. With a user signed in, \<^verbatim>\<open>saveCart\<close> sends the whole cart to the remote
  database under \<^verbatim>\<open>carts/\<close> followed by the user's id, and waits. When the write succeeds
  the record holds the cart that was sent and nothing else happens. When it fails, the
  remote database is unchanged, the failure is reported on the console, and the fallback
  works on the state of that moment: with a user signed in, the cart then in memory,
  serialised, is written to \<^verbatim>\<open>localStorage\<close> under \<^verbatim>\<open>favsCart_\<close> followed by the id of that
  user, which then holds it if \<^verbatim>\<open>localStorage\<close> accepts the write (its refusal is reported
  on the console); with no user signed in, nothing is written and the error of reading the
  id is reported on the console. When no callback ran while the write was pending, these
  are the cart that was sent and the user who sent it. In every case \<^verbatim>\<open>saveCart\<close> returns
  normally: no exception reaches the caller.
\<close>

theorem saveCart_remote_then_local_fallback:
  assumes "currentUser s = Some u"
  shows "saveCart_begin s =
           (emit (RemoteSet (''carts/'' @ uid u) (cart s)) s, Some (''carts/'' @ uid u, cart s)) \<and>
         fst (saveCart_resume ro lo req s') = None \<and>
         cart (snd (saveCart_resume ro lo req s')) = cart s' \<and>
         (ro = Succeeds \<longrightarrow>
            snd (saveCart_resume ro lo req s') = s'\<lparr>firebase := (firebase s')(fst req \<mapsto> snd req)\<rparr>) \<and>
         (ro = Fails \<longrightarrow>
            firebase (snd (saveCart_resume ro lo req s')) = firebase s' \<and>
            effects (snd (saveCart_resume ro lo req s')) =
              effects s' @ [ConsoleError ''Error saving user cart to Firebase:'']
                @ (case currentUser s' of
                     None \<Rightarrow> [ConsoleError ''Error saving to localStorage:'']
                   | Some u' \<Rightarrow>
                       [LocalSet (''favsCart_'' @ uid u') (JSON_cart (cart s'))]
                         @ (if lo = Succeeds then []
                            else [ConsoleError ''Error saving to localStorage:''])) \<and>
            localStorage (snd (saveCart_resume ro lo req s')) =
              (case currentUser s' of
                 None \<Rightarrow> localStorage s'
               | Some u' \<Rightarrow>
                   if lo = Succeeds
                   then (localStorage s')(''favsCart_'' @ uid u' \<mapsto> JSON_cart (cart s'))
                   else localStorage s')) \<and>
         fst (saveCart ro lo s) = None \<and>
         cart (snd (saveCart ro lo s)) = cart s \<and>
         (ro = Succeeds \<longrightarrow>
            firebase (snd (saveCart ro lo s)) = (firebase s)(''carts/'' @ uid u \<mapsto> cart s) \<and>
            localStorage (snd (saveCart ro lo s)) = localStorage s \<and>
            effects (snd (saveCart ro lo s)) =
              effects s @ [RemoteSet (''carts/'' @ uid u) (cart s)]) \<and>
         (ro = Fails \<longrightarrow>
            firebase (snd (saveCart ro lo s)) = firebase s \<and>
            effects (snd (saveCart ro lo s)) =
              effects s @ [RemoteSet (''carts/'' @ uid u) (cart s),
                           ConsoleError ''Error saving user cart to Firebase:'',
                           LocalSet (''favsCart_'' @ uid u) (JSON_cart (cart s))]
                        @ (if lo = Succeeds then []
                           else [ConsoleError ''Error saving to localStorage:'']) \<and>
            localStorage (snd (saveCart ro lo s)) =
              (if lo = Succeeds
               then (localStorage s)(''favsCart_'' @ uid u \<mapsto> JSON_cart (cart s))
               else localStorage s))"
proof -
  have started: "saveCart_begin s =
           (emit (RemoteSet (''carts/'' @ uid u) (cart s)) s, Some (''carts/'' @ uid u, cart s))"
    using assms by (simp add: saveCart_begin_def)
  have settle: "fst (saveCart_resume ro lo req s') = None \<and>
         cart (snd (saveCart_resume ro lo req s')) = cart s' \<and>
         (ro = Succeeds \<longrightarrow>
            snd (saveCart_resume ro lo req s') = s'\<lparr>firebase := (firebase s')(fst req \<mapsto> snd req)\<rparr>) \<and>
         (ro = Fails \<longrightarrow>
            firebase (snd (saveCart_resume ro lo req s')) = firebase s' \<and>
            effects (snd (saveCart_resume ro lo req s')) =
              effects s' @ [ConsoleError ''Error saving user cart to Firebase:'']
                @ (case currentUser s' of
                     None \<Rightarrow> [ConsoleError ''Error saving to localStorage:'']
                   | Some u' \<Rightarrow>
                       [LocalSet (''favsCart_'' @ uid u') (JSON_cart (cart s'))]
                         @ (if lo = Succeeds then []
                            else [ConsoleError ''Error saving to localStorage:''])) \<and>
            localStorage (snd (saveCart_resume ro lo req s')) =
              (case currentUser s' of
                 None \<Rightarrow> localStorage s'
               | Some u' \<Rightarrow>
                   if lo = Succeeds
                   then (localStorage s')(''favsCart_'' @ uid u' \<mapsto> JSON_cart (cart s'))
                   else localStorage s'))"
    by (cases ro; cases lo; cases "currentUser s'")
       (simp_all add: saveCart_resume_def firebase_set_settled_def saveCart_fallback_def
         try_catch_def normal_def localStorage_setItem_def console_error_def emit_def)
  have whole: "fst (saveCart ro lo s) = None \<and>
         cart (snd (saveCart ro lo s)) = cart s \<and>
         (ro = Succeeds \<longrightarrow>
            firebase (snd (saveCart ro lo s)) = (firebase s)(''carts/'' @ uid u \<mapsto> cart s) \<and>
            localStorage (snd (saveCart ro lo s)) = localStorage s \<and>
            effects (snd (saveCart ro lo s)) =
              effects s @ [RemoteSet (''carts/'' @ uid u) (cart s)]) \<and>
         (ro = Fails \<longrightarrow>
            firebase (snd (saveCart ro lo s)) = firebase s \<and>
            effects (snd (saveCart ro lo s)) =
              effects s @ [RemoteSet (''carts/'' @ uid u) (cart s),
                           ConsoleError ''Error saving user cart to Firebase:'',
                           LocalSet (''favsCart_'' @ uid u) (JSON_cart (cart s))]
                        @ (if lo = Succeeds then []
                           else [ConsoleError ''Error saving to localStorage:'']) \<and>
            localStorage (snd (saveCart ro lo s)) =
              (if lo = Succeeds
               then (localStorage s)(''favsCart_'' @ uid u \<mapsto> JSON_cart (cart s))
               else localStorage s))"
    using assms
    by (cases ro; cases lo)
       (simp_all add: saveCart_def saveCart_begin_def saveCart_resume_def
         firebase_set_settled_def saveCart_fallback_def try_catch_def normal_def
         localStorage_setItem_def console_error_def emit_def)
  show ?thesis using started settle whole by blast
qed

text \<open>The theorem for \<open>user1\<close> holding one line: the uninterrupted save when the remote
  write succeeds, and when it fails and \<^verbatim>\<open>localStorage\<close> accepts the fallback; and the
  failed write that settles after a logout.\<close>

theorem saveCart_fallback_witness:
  "currentUser one_line_store = Some user1 \<and>
   fst (saveCart Succeeds Succeeds one_line_store) = None \<and>
   firebase (snd (saveCart Succeeds Succeeds one_line_store)) ''carts/user1'' = Some [tshirt_line] \<and>
   fst (saveCart Fails Succeeds one_line_store) = None \<and>
   localStorage (snd (saveCart Fails Succeeds one_line_store)) ''favsCart_user1''
     = Some (JSON_cart [tshirt_line]) \<and>
   localStorage
     (snd (saveCart_resume Fails Succeeds (''carts/user1'', [tshirt_line])
             (handleUserLogout one_line_store)))
     = localStorage (handleUserLogout one_line_store)"
  using saveCart_remote_then_local_fallback
          [of one_line_store user1 Succeeds Succeeds "(''carts/user1'', [tshirt_line])"
              "handleUserLogout one_line_store"]
        saveCart_remote_then_local_fallback
          [of one_line_store user1 Fails Succeeds "(''carts/user1'', [tshirt_line])"
              "handleUserLogout one_line_store"]
  by (simp add: one_line_store_eval user1_def handleUserLogout_def)

section \<open>Loading the cart\<close>

text \<open>
  Claim C7. With a user signed in, \<^verbatim>\<open>loadUserCart\<close> makes one request, a read of
  \<^verbatim>\<open>carts/\<close> followed by the user's id. The cart in memory becomes the record when one
  exists, the empty sequence when none exists, and the empty sequence when the read fails
  (the failure goes to the console). Neither store is written. \<^verbatim>\<open>localStorage\<close> is never
  read: its content has no influence on the result; nor have the records of other users.
\<close>

theorem loadUserCart_reads_remote_only:
  assumes "currentUser s = Some u"
  shows "cart (loadUserCart ro s) =
           (case ro of
              Succeeds \<Rightarrow> (case firebase s (''carts/'' @ uid u) of Some v \<Rightarrow> v | None \<Rightarrow> [])
            | Fails \<Rightarrow> []) \<and>
         effects (loadUserCart ro s) =
           effects s @ [RemoteGet (''carts/'' @ uid u)]
             @ (if ro = Succeeds then [] else [ConsoleError ''Error loading user cart:'']) \<and>
         firebase (loadUserCart ro s) = firebase s \<and>
         localStorage (loadUserCart ro s) = localStorage s \<and>
         loadUserCart ro (s\<lparr>localStorage := ls\<rparr>) = (loadUserCart ro s)\<lparr>localStorage := ls\<rparr> \<and>
         (db (''carts/'' @ uid u) = firebase s (''carts/'' @ uid u) \<longrightarrow>
            cart (loadUserCart ro (s\<lparr>firebase := db\<rparr>)) = cart (loadUserCart ro s))"
  using assms
  by (cases ro)
     (simp_all add: loadUserCart_def loadUserCart_begin_def loadUserCart_resume_def
       firebase_once_def console_error_def emit_def split: option.splits)

text \<open>The theorem for \<open>user1\<close>, whose failed remote write left a T-shirt in
  \<^verbatim>\<open>localStorage\<close> only: the load finds no record and gives the empty cart; the record of
  another user changes nothing.\<close>

theorem loadUserCart_witness:
  "currentUser unsaved_cart_store = Some user1 \<and>
   cart (loadUserCart Succeeds unsaved_cart_store) = [] \<and>
   cart (loadUserCart Fails unsaved_cart_store) = [] \<and>
   [''carts/user2'' \<mapsto> [tshirt_line]] (''carts/'' @ uid user1)
     = firebase unsaved_cart_store (''carts/'' @ uid user1) \<and>
   cart (loadUserCart Succeeds
           (unsaved_cart_store\<lparr>firebase := [''carts/user2'' \<mapsto> [tshirt_line]]\<rparr>)) = []"
  using loadUserCart_reads_remote_only
          [of unsaved_cart_store user1 Succeeds _ "[''carts/user2'' \<mapsto> [tshirt_line]]"]
        loadUserCart_reads_remote_only [of unsaved_cart_store user1 Fails]
  by (simp add: unsaved_cart_store_eval user1_def)

section \<open>The admin flag\<close>

text \<open>
  Claim C8, as the specification states it, ends: \<^verbatim>\<open>isAdmin\<close> is never derived from any
  other signal. The store has one: after \<^verbatim>\<open>forceAdminMode\<close>, \<open>user1\<close>, whose address is
  not the admin address, is signed in with \<^verbatim>\<open>isAdmin\<close> true.
\<close>

theorem forced_admin_counterexample:
  "currentUser (forceAdminMode signed_in_store) = Some user1 \<and>
   isAdmin (forceAdminMode signed_in_store) \<and>
   \<not> equal_ignoring_case (email user1) (adminEmail (forceAdminMode signed_in_store))"
  by (simp add: forceAdminMode_def showNotification_def emit_def signed_in_store_eval user1_def
      equal_ignoring_case_def same_letter_def is_upper_def)

text \<open>
  Claim C8, amended. On every session change with a signed-in user, in the store and in
  the authentication manager, \<^verbatim>\<open>isAdmin\<close> is recomputed as the equality, up to the case of
  letters, of the user's address and the configured admin address: it is set before the
  load starts, it stays so when the load resolves, and it depends on nothing else, neither
  on the state before nor on what the load delivers. Outside session changes, the debug
  method \<^verbatim>\<open>forceAdminMode\<close> sets \<^verbatim>\<open>isAdmin\<close> to true without looking at the user; the next
  session change recomputes it.
\<close>

theorem isAdmin_is_case_insensitive_email_match:
  "isAdmin (fst (handleUserLogin_begin u s)) = equal_ignoring_case (email u) (adminEmail s) \<and>
   isAdmin (handleUserLogin_resume u r (fst (handleUserLogin_begin u s))) =
     equal_ignoring_case (email u) (adminEmail s) \<and>
   isAdmin (handleUserLogin ro u s) = equal_ignoring_case (email u) (adminEmail s) \<and>
   am_isAdmin (fst (AuthManager_handleUserLogin ADMIN_EMAIL u (am, window_store))) =
     equal_ignoring_case (email u) ADMIN_EMAIL \<and>
   isAdmin (forceAdminMode s) \<and>
   isAdmin (handleUserLogin ro u (forceAdminMode s)) =
     equal_ignoring_case (email u) (adminEmail s)"
  by (cases ro; cases r)
     (simp_all add: handleUserLogin_def handleUserLogin_begin_def loadUserCart_begin_def
       handleUserLogin_resume_def loadUserCart_resume_def firebase_once_def
       handleUserLogin_greet_def showNotification_def emit_def console_error_def
       AuthManager_handleUserLogin_def forceAdminMode_def toLowerCase_eq_iff
       split: option.splits)

text \<open>The scenarios of the specification: a case variant of the admin address signs in
  as admin; \<open>user1\<close> does not, also after \<^verbatim>\<open>forceAdminMode\<close>.\<close>

theorem isAdmin_scenarios:
  "isAdmin (handleUserLogin Succeeds admin_user (FavsBlingStore ''admin@x.com'' Map.empty)) \<and>
   \<not> isAdmin (handleUserLogin Succeeds user1 (FavsBlingStore ''admin@x.com'' Map.empty)) \<and>
   \<not> isAdmin (handleUserLogin Succeeds user1
                 (forceAdminMode (FavsBlingStore ''admin@x.com'' Map.empty)))"
  using isAdmin_is_case_insensitive_email_match
          [of admin_user "FavsBlingStore ''admin@x.com'' Map.empty" _ Succeeds]
        isAdmin_is_case_insensitive_email_match
          [of user1 "FavsBlingStore ''admin@x.com'' Map.empty" _ Succeeds]
  by (simp add: FavsBlingStore_def admin_user_def user1_def equal_ignoring_case_def
      same_letter_def is_upper_def)

section \<open>Decrement to zero\<close>

text \<open>
  Claim C9. With a user signed in and a line for product \<open>p\<close> of quantity \<open>q\<close> in the cart
  (the line \<^verbatim>\<open>find\<close> returns), \<^verbatim>\<open>updateQuantity(p, -q)\<close> leaves the same state, trace
  included, and returns the same as \<^verbatim>\<open>removeFromCart(p)\<close>; so does \<^verbatim>\<open>updateQuantity\<close> with
  any change whose sum with \<open>q\<close> is zero or below (the rounding of the sum to a double does
  not move it across zero), and with any change after which the store finds the quantity
  zero or below. That state has no line for \<open>p\<close>, and the cart without it was sent to the
  remote database.
\<close>

theorem updateQuantity_to_zero_is_removeFromCart:
  assumes "currentUser s = Some u"
    and "find (\<lambda>item. id' item = productId) (cart s) = Some l"
  shows "(quantity l = Finite n \<longrightarrow>
            updateQuantity ro lo productId (- n) s = removeFromCart ro lo productId s) \<and>
         (quantity l = Finite n \<and> n + change \<le> 0 \<longrightarrow>
            updateQuantity ro lo productId change s = removeFromCart ro lo productId s) \<and>
         (le_zero (js_plus (quantity l) change) \<longrightarrow>
            updateQuantity ro lo productId change s = removeFromCart ro lo productId s) \<and>
         cart (snd (removeFromCart ro lo productId s)) =
           filter (\<lambda>item. id' item \<noteq> productId) (cart s) \<and>
         \<not> in_cart productId (cart (snd (removeFromCart ro lo productId s))) \<and>
         RemoteSet (''carts/'' @ uid u) (filter (\<lambda>item. id' item \<noteq> productId) (cart s))
           \<in> set (effects (snd (removeFromCart ro lo productId s)))"
proof -
  have same: "updateQuantity ro lo productId d s = removeFromCart ro lo productId s"
    if "le_zero (js_plus (quantity l) d)" for d
  proof -
    have "filter (\<lambda>item. id' item \<noteq> productId)
            (update_first (\<lambda>item. id' item = productId)
               (\<lambda>item. item\<lparr>quantity := js_plus (quantity item) d\<rparr>) (cart s))
          = filter (\<lambda>item. id' item \<noteq> productId) (cart s)"
      by (rule filter_update_first) simp
    then show ?thesis using assms that
      by (simp add: updateQuantity_def removeFromCart_def)
  qed
  have finite: "le_zero (js_plus (quantity l) d)" if "quantity l = Finite n" and "n + d \<le> 0" for d
    using that by (simp add: js_plus_def le_zero_round_double)
  have removed: "cart (snd (removeFromCart ro lo productId s)) =
           filter (\<lambda>item. id' item \<noteq> productId) (cart s)"
    using assms(1) by (simp add: removeFromCart_cart)
  have saved: "RemoteSet (''carts/'' @ uid u) (filter (\<lambda>item. id' item \<noteq> productId) (cart s))
           \<in> set (effects (snd (removeFromCart ro lo productId s)))"
    using assms(1)
    by (cases ro; cases lo)
       (simp_all add: removeFromCart_def and_then_def normal_def saveCart_def try_catch_def
         saveCart_begin_def saveCart_resume_def firebase_set_settled_def
         saveCart_fallback_def localStorage_setItem_def console_error_def
         showNotification_def emit_def)
  show ?thesis
    using same [of "- n"] same [of change] finite [of "- n"] finite [of change] removed saved
    by (auto simp: in_cart_def)
qed

text \<open>The theorem for \<open>user1\<close> holding one T-shirt.\<close>

theorem updateQuantity_to_zero_witness:
  "currentUser one_line_store = Some user1 \<and>
   find (\<lambda>item. id' item = 1) (cart one_line_store) = Some tshirt_line \<and>
   quantity tshirt_line = Finite 1 \<and> (1 :: int) + (- 3) \<le> 0 \<and>
   le_zero (js_plus (quantity tshirt_line) (- 3)) \<and>
   updateQuantity Succeeds Succeeds 1 (- 1) one_line_store =
     removeFromCart Succeeds Succeeds 1 one_line_store \<and>
   updateQuantity Succeeds Succeeds 1 (- 3) one_line_store =
     removeFromCart Succeeds Succeeds 1 one_line_store \<and>
   cart (snd (removeFromCart Succeeds Succeeds 1 one_line_store)) = []"
  using updateQuantity_to_zero_is_removeFromCart
          [of one_line_store user1 1 tshirt_line 1 Succeeds Succeeds "- 3"]
  by (simp add: one_line_store_eval tshirt_line_def js_plus_def le_zero_round_double)

section \<open>Payment verification\<close>

text \<open>
  Claim C10. \<^verbatim>\<open>handlePaymentSuccess\<close> never throws. When the verification answers with
  \<^verbatim>\<open>success\<close> false, or the request or its decoding fails, the payment counts as failed as
  a whole: the cart in memory, the orders, the customers and both stores are as before and
  the trace gains no write. So the order list or the cart change only when the
  verification has succeeded. When it has, and \<^verbatim>\<open>localStorage\<close> accepts the orders and
  the customers, the order, with the cart as its items, is appended to the orders, the cart
  is empty, and the empty cart was sent to the remote record of the signed-in user.
\<close>

theorem payment_verification_gates_order_and_cart:
  "fst (handlePaymentSuccess w reference mail amount cname phone address s) = None \<and>
   (\<not> verification_succeeded (verification_answer w) \<longrightarrow>
      cart (after_payment w reference mail amount cname phone address s) = cart s \<and>
      orders (after_payment w reference mail amount cname phone address s) = orders s \<and>
      customers (after_payment w reference mail amount cname phone address s) = customers s \<and>
      firebase (after_payment w reference mail amount cname phone address s) = firebase s \<and>
      localStorage (after_payment w reference mail amount cname phone address s)
        = localStorage s \<and>
      filter is_write (effects (after_payment w reference mail amount cname phone address s))
        = filter is_write (effects s)) \<and>
   (orders (after_payment w reference mail amount cname phone address s) \<noteq> orders s \<or>
    cart (after_payment w reference mail amount cname phone address s) \<noteq> cart s \<longrightarrow>
      verification_succeeded (verification_answer w)) \<and>
   (verification_succeeded (verification_answer w) \<and> orders_write w = Succeeds \<and>
    customers_write w = Succeeds \<longrightarrow>
      orders (after_payment w reference mail amount cname phone address s) =
        orders s @ [new_order w reference mail amount cname phone address s] \<and>
      cart (after_payment w reference mail amount cname phone address s) = [] \<and>
      (currentUser s = Some u \<longrightarrow>
         RemoteSet (''carts/'' @ uid u) []
           \<in> set (effects (after_payment w reference mail amount cname phone address s))))"
proof -
  have rejected:
    "cart (after_payment w reference mail amount cname phone address s) = cart s \<and>
     orders (after_payment w reference mail amount cname phone address s) = orders s \<and>
     customers (after_payment w reference mail amount cname phone address s) = customers s \<and>
     firebase (after_payment w reference mail amount cname phone address s) = firebase s \<and>
     localStorage (after_payment w reference mail amount cname phone address s)
       = localStorage s \<and>
     filter is_write (effects (after_payment w reference mail amount cname phone address s))
       = filter is_write (effects s)"
    if rejects: "\<not> verification_succeeded (verification_answer w)"
  proof -
    obtain e where
      "after_payment w reference mail amount cname phone address s =
         showNotification ''Items kept in cart for retry'' ''info''
           (showNotification (''Payment verification failed: '' @ message_of e) ''error''
             (console_error ''Payment verification error:''
               (emit (Fetch ''/verify-payment'' reference)
                 (showNotification ''Verifying payment with secure backend...'' ''info'' s))))"
      using handlePaymentSuccess_rejected [OF rejects] unfolding after_payment_def by blast
    then show ?thesis
      by (simp add: showNotification_def console_error_def emit_def)
  qed
  have accepted:
    "orders (after_payment w reference mail amount cname phone address s) =
       orders s @ [new_order w reference mail amount cname phone address s] \<and>
     cart (after_payment w reference mail amount cname phone address s) = [] \<and>
     (currentUser s = Some u \<longrightarrow>
        RemoteSet (''carts/'' @ uid u) []
          \<in> set (effects (after_payment w reference mail amount cname phone address s)))"
    if "verification_succeeded (verification_answer w)" and "orders_write w = Succeeds"
      and "customers_write w = Succeeds"
    using handlePaymentSuccess_accepted [OF that] unfolding after_payment_def .
  show ?thesis
    using rejected accepted handlePaymentSuccess_returns by blast
qed

text \<open>The theorem for \<open>user1\<close> holding one T-shirt, once with a verification that
  answers \<^verbatim>\<open>success\<close> false and once with one that accepts.\<close>

theorem payment_verification_witness:
  "\<not> verification_succeeded (verification_answer rejecting_world) \<and>
   cart (after_payment rejecting_world ''FB_1'' ''a@b.com'' 4500 ''A'' ''080'' ''Lagos''
           one_line_store) = [tshirt_line] \<and>
   orders (after_payment rejecting_world ''FB_1'' ''a@b.com'' 4500 ''A'' ''080'' ''Lagos''
             one_line_store) = [] \<and>
   verification_succeeded (verification_answer accepting_world) \<and>
   orders_write accepting_world = Succeeds \<and> customers_write accepting_world = Succeeds \<and>
   cart (after_payment accepting_world ''FB_1'' ''a@b.com'' 4500 ''A'' ''080'' ''Lagos''
           one_line_store) = [] \<and>
   map items (orders (after_payment accepting_world ''FB_1'' ''a@b.com'' 4500 ''A'' ''080''
                        ''Lagos'' one_line_store)) = [[tshirt_line]]"
  using payment_verification_gates_order_and_cart
          [of rejecting_world "''FB_1''" "''a@b.com''" 4500 "''A''" "''080''" "''Lagos''"
              one_line_store]
        payment_verification_gates_order_and_cart
          [of accepting_world "''FB_1''" "''a@b.com''" 4500 "''A''" "''080''" "''Lagos''"
              one_line_store]
  by (simp add: one_line_store_eval rejecting_world_def accepting_world_def
      verification_succeeded_def new_order_def)

end
